theory Spec2Isabelle
  imports Complex_Main
begin

section \<open>Strings\<close>

text \<open>
  A JavaScript string is modelled as a \<^typ>\<open>string\<close>: a list of code units, here the
  code units below 256.  The functions of this section are the string built-ins that
  the engine calls (\<^verbatim>\<open>trim\<close>, \<^verbatim>\<open>includes\<close>, \<^verbatim>\<open>lastIndexOf\<close>, \<^verbatim>\<open>replace\<close>,
  \<^verbatim>\<open>toLowerCase\<close>, \<^verbatim>\<open>join\<close>).
\<close>

definition isWhiteSpace :: "char \<Rightarrow> bool" where
  \<comment> \<open>WhiteSpace and LineTerminator of ECMAScript, among the code units below 256:
      TAB, LF, VT, FF, CR, SP and NBSP.\<close>
  "isWhiteSpace c \<longleftrightarrow>
     c \<in> set [CHR 0x09, CHR 0x0A, CHR 0x0B, CHR 0x0C, CHR 0x0D, CHR 0x20, CHR 0xA0]"

definition trim :: "string \<Rightarrow> string" where
  "trim s = rev (dropWhile isWhiteSpace (rev (dropWhile isWhiteSpace s)))"

definition includes_char :: "string \<Rightarrow> char \<Rightarrow> bool" where
  "includes_char s c \<longleftrightarrow> c \<in> set s"

fun lastIndexFrom :: "nat \<Rightarrow> int \<Rightarrow> char \<Rightarrow> string \<Rightarrow> int" where
  "lastIndexFrom i found c [] = found"
| "lastIndexFrom i found c (x # xs) =
     lastIndexFrom (Suc i) (if x = c then int i else found) c xs"

definition lastIndexOf :: "string \<Rightarrow> char \<Rightarrow> int" where
  \<comment> \<open>the greatest index holding \<open>c\<close>, and \<open>-1\<close> when there is none\<close>
  "lastIndexOf s c = lastIndexFrom 0 (- 1) c s"

definition removeAll_char :: "char \<Rightarrow> string \<Rightarrow> string" where
  \<comment> \<open>\<^verbatim>\<open>s.replace(/c/g, "")\<close>\<close>
  "removeAll_char c s = filter (\<lambda>x. x \<noteq> c) s"

fun replaceFirst :: "char \<Rightarrow> char \<Rightarrow> string \<Rightarrow> string" where
  \<comment> \<open>\<^verbatim>\<open>s.replace("a", "b")\<close> with a string pattern: the first occurrence only\<close>
  "replaceFirst a b [] = []"
| "replaceFirst a b (x # xs) = (if x = a then b # xs else x # replaceFirst a b xs)"

definition isDigit :: "char \<Rightarrow> bool" where
  "isDigit c \<longleftrightarrow> c \<in> set ''0123456789''"

definition toLowerCase_char :: "char \<Rightarrow> char" where
  \<comment> \<open>A to Z, and the upper-case letters of Latin-1 (0xC0 to 0xDE without 0xD7),
      are 32 below their lower-case forms\<close>
  "toLowerCase_char c =
     (let n = (of_char c :: nat) in
      if (65 \<le> n \<and> n \<le> 90) \<or> (192 \<le> n \<and> n \<le> 222 \<and> n \<noteq> 215)
      then char_of (n + 32) else c)"

definition toLowerCase :: "string \<Rightarrow> string" where
  "toLowerCase s = map toLowerCase_char s"

fun join :: "string \<Rightarrow> string list \<Rightarrow> string" where
  "join sep [] = []"
| "join sep [x] = x"
| "join sep (x # y # ys) = x @ sep @ join sep (y # ys)"

section \<open>Regular expressions\<close>

text \<open>
  The patterns of the engine are anchored at both ends (\<^verbatim>\<open>^...$\<close>), carry no flag and
  use only literals, \<^verbatim>\<open>\d\<close>, groups and the quantifiers \<^verbatim>\<open>?\<close>, \<^verbatim>\<open>*\<close>, \<^verbatim>\<open>+\<close>, \<^verbatim>\<open>{n}\<close>,
  \<^verbatim>\<open>{m,n}\<close>.  For such a pattern \<^verbatim>\<open>p.test(s)\<close> holds exactly when the whole of \<open>s\<close> is
  a word of the pattern; \<open>test\<close> decides this with derivatives.
\<close>

datatype regexp =
    Never
  | Empty
  | Lit char
  | Digit
  | Or regexp regexp
  | Then regexp regexp
  | Many regexp

definition Opt :: "regexp \<Rightarrow> regexp" where
  \<comment> \<open>\<^verbatim>\<open>r?\<close>\<close>
  "Opt r = Or Empty r"

definition OneOrMore :: "regexp \<Rightarrow> regexp" where
  \<comment> \<open>\<^verbatim>\<open>r+\<close>\<close>
  "OneOrMore r = Then r (Many r)"

fun Times :: "nat \<Rightarrow> regexp \<Rightarrow> regexp" where
  \<comment> \<open>\<^verbatim>\<open>r{n}\<close>\<close>
  "Times 0 r = Empty"
| "Times (Suc n) r = Then r (Times n r)"

fun UpTo :: "nat \<Rightarrow> regexp \<Rightarrow> regexp" where
  \<comment> \<open>\<^verbatim>\<open>r{0,n}\<close>\<close>
  "UpTo 0 r = Empty"
| "UpTo (Suc n) r = Opt (Then r (UpTo n r))"

definition Between :: "nat \<Rightarrow> nat \<Rightarrow> regexp \<Rightarrow> regexp" where
  \<comment> \<open>\<^verbatim>\<open>r{m,n}\<close>\<close>
  "Between m n r = Then (Times m r) (UpTo (n - m) r)"

fun Seq :: "regexp list \<Rightarrow> regexp" where
  "Seq [] = Empty"
| "Seq [r] = r"
| "Seq (r # rs) = Then r (Seq rs)"

fun nullable :: "regexp \<Rightarrow> bool" where
  "nullable Never = False"
| "nullable Empty = True"
| "nullable (Lit c) = False"
| "nullable Digit = False"
| "nullable (Or r s) = (nullable r \<or> nullable s)"
| "nullable (Then r s) = (nullable r \<and> nullable s)"
| "nullable (Many r) = True"

fun deriv :: "char \<Rightarrow> regexp \<Rightarrow> regexp" where
  "deriv c Never = Never"
| "deriv c Empty = Never"
| "deriv c (Lit d) = (if c = d then Empty else Never)"
| "deriv c Digit = (if isDigit c then Empty else Never)"
| "deriv c (Or r s) = Or (deriv c r) (deriv c s)"
| "deriv c (Then r s) =
     (if nullable r then Or (Then (deriv c r) s) (deriv c s) else Then (deriv c r) s)"
| "deriv c (Many r) = Then (deriv c r) (Many r)"

fun test :: "regexp \<Rightarrow> string \<Rightarrow> bool" where
  "test r [] = nullable r"
| "test r (c # s) = test (deriv c r) s"

text \<open>The words of a pattern, for stating what \<open>test\<close> decides.\<close>

inductive_set star :: "string set \<Rightarrow> string set" for A :: "string set" where
  star_nil: "[] \<in> star A"
| star_app: "u \<in> A \<Longrightarrow> v \<in> star A \<Longrightarrow> u @ v \<in> star A"

fun lang :: "regexp \<Rightarrow> string set" where
  "lang Never = {}"
| "lang Empty = {[]}"
| "lang (Lit c) = {[c]}"
| "lang Digit = {[c] | c. isDigit c}"
| "lang (Or r s) = lang r \<union> lang s"
| "lang (Then r s) = {u @ v | u v. u \<in> lang r \<and> v \<in> lang s}"
| "lang (Many r) = star (lang r)"

section \<open>Numbers\<close>

text \<open>
  A JavaScript number is a binary64 value.  The model keeps NaN and the two infinities
  apart and stands for every other value by the rational it denotes: \<open>Finite q\<close> is the
  number that the runtime obtains from the mathematical value \<open>q\<close>.  Overflow is
  modelled: a mathematical value that rounds beyond the largest finite binary64 value
  gives an infinity (\<open>binary64\<close>).  Rounding within the finite range and the sign of
  zero are not modelled, so arithmetic on \<open>Finite\<close> is exact up to overflow.
\<close>

datatype number = NaN | PosInfinity | NegInfinity | Finite rat

definition OVERFLOW_BOUND :: rat where
  \<comment> \<open>half way between the largest finite value \<open>2^1024 - 2^971\<close> and \<open>2^1024\<close>: from
      here on rounding to nearest, ties to even, gives the infinity\<close>
  "OVERFLOW_BOUND = 2 ^ 1024 - 2 ^ 970"

definition binary64 :: "rat \<Rightarrow> number" where
  \<comment> \<open>the number for a mathematical value\<close>
  "binary64 q =
     (if OVERFLOW_BOUND \<le> q then PosInfinity
      else if q \<le> - OVERFLOW_BOUND then NegInfinity
      else Finite q)"

definition isNaN :: "number \<Rightarrow> bool" where
  "isNaN n \<longleftrightarrow> n = NaN"

fun negate :: "number \<Rightarrow> number" where
  "negate NaN = NaN"
| "negate PosInfinity = NegInfinity"
| "negate NegInfinity = PosInfinity"
| "negate (Finite q) = Finite (- q)"

fun add :: "number \<Rightarrow> number \<Rightarrow> number" where
  \<comment> \<open>\<^verbatim>\<open>a + b\<close> on numbers\<close>
  "add NaN b = NaN"
| "add a NaN = NaN"
| "add PosInfinity NegInfinity = NaN"
| "add NegInfinity PosInfinity = NaN"
| "add PosInfinity b = PosInfinity"
| "add NegInfinity b = NegInfinity"
| "add (Finite p) PosInfinity = PosInfinity"
| "add (Finite p) NegInfinity = NegInfinity"
| "add (Finite p) (Finite q) = binary64 (p + q)"

definition subtract :: "number \<Rightarrow> number \<Rightarrow> number" where
  \<comment> \<open>\<^verbatim>\<open>a - b\<close>\<close>
  "subtract a b = add a (negate b)"

fun divideBy :: "number \<Rightarrow> nat \<Rightarrow> number" where
  \<comment> \<open>\<^verbatim>\<open>a / k\<close> for a number \<open>a\<close> and a non-negative integer \<open>k\<close> (a length, or 2)\<close>
  "divideBy NaN k = NaN"
| "divideBy PosInfinity k = PosInfinity"
| "divideBy NegInfinity k = NegInfinity"
| "divideBy (Finite q) k =
     (if k = 0 then (if q = 0 then NaN else if 0 < q then PosInfinity else NegInfinity)
      else Finite (q / of_nat k))"

fun lt_number :: "number \<Rightarrow> number \<Rightarrow> bool" where
  \<comment> \<open>\<^verbatim>\<open>a < b\<close>: false as soon as one side is NaN\<close>
  "lt_number NaN b = False"
| "lt_number a NaN = False"
| "lt_number PosInfinity b = False"
| "lt_number a NegInfinity = False"
| "lt_number NegInfinity b = True"
| "lt_number (Finite p) PosInfinity = True"
| "lt_number (Finite p) (Finite q) = (p < q)"

definition min2 :: "number \<Rightarrow> number \<Rightarrow> number" where
  "min2 a b = (if isNaN a \<or> isNaN b then NaN else if lt_number b a then b else a)"

definition max2 :: "number \<Rightarrow> number \<Rightarrow> number" where
  "max2 a b = (if isNaN a \<or> isNaN b then NaN else if lt_number a b then b else a)"

definition Math_min :: "number list \<Rightarrow> number" where
  \<comment> \<open>\<^verbatim>\<open>Math.min(...xs)\<close>: NaN if one argument is, \<open>+Infinity\<close> without arguments.
      The call spreads the array; the limit that a runtime puts on the number of
      arguments is not modelled.\<close>
  "Math_min xs = foldl min2 PosInfinity xs"

definition Math_max :: "number list \<Rightarrow> number" where
  \<comment> \<open>\<^verbatim>\<open>Math.max(...xs)\<close>: NaN if one argument is, \<open>-Infinity\<close> without arguments\<close>
  "Math_max xs = foldl max2 NegInfinity xs"

definition sum_reduce :: "number list \<Rightarrow> number" where
  \<comment> \<open>\<^verbatim>\<open>xs.reduce((a, b) => a + b, 0)\<close>\<close>
  "sum_reduce xs = foldl add (Finite 0) xs"

subsection \<open>\<^verbatim>\<open>Number(string)\<close>\<close>

text \<open>
  The conversion of ECMAScript (StringToNumber): white space is stripped at both ends,
  the empty string is 0, then the text must be the whole of a StrNumericLiteral: a
  binary, octal or hexadecimal integer with its prefix, or an optionally signed
  \<^verbatim>\<open>Infinity\<close> or decimal literal with an optional exponent.  Everything else is NaN.
  A literal beyond the binary64 range gives an infinity.
\<close>

definition digitValue :: "char \<Rightarrow> nat" where
  "digitValue c =
     (let n = (of_char c :: nat) in
      if 48 \<le> n \<and> n \<le> 57 then n - 48
      else if 97 \<le> n \<and> n \<le> 102 then n - 87
      else n - 55)"

definition digitsValue :: "nat \<Rightarrow> string \<Rightarrow> nat" where
  \<comment> \<open>the value of a digit string in a radix\<close>
  "digitsValue radix ds = foldl (\<lambda>acc c. radix * acc + digitValue c) 0 ds"

definition isHexDigit :: "char \<Rightarrow> bool" where
  "isHexDigit c \<longleftrightarrow> c \<in> set ''0123456789abcdefABCDEF''"

definition isOctalDigit :: "char \<Rightarrow> bool" where
  "isOctalDigit c \<longleftrightarrow> c \<in> set ''01234567''"

definition isBinaryDigit :: "char \<Rightarrow> bool" where
  "isBinaryDigit c \<longleftrightarrow> c \<in> set ''01''"

definition NonDecimalIntegerLiteral :: "string \<Rightarrow> nat option" where
  "NonDecimalIntegerLiteral t =
     (case t of
        z # p # ds \<Rightarrow>
          if z = CHR ''0'' \<and> ds \<noteq> [] then
            if (p = CHR ''x'' \<or> p = CHR ''X'') \<and> list_all isHexDigit ds
              then Some (digitsValue 16 ds)
            else if (p = CHR ''o'' \<or> p = CHR ''O'') \<and> list_all isOctalDigit ds
              then Some (digitsValue 8 ds)
            else if (p = CHR ''b'' \<or> p = CHR ''B'') \<and> list_all isBinaryDigit ds
              then Some (digitsValue 2 ds)
            else None
          else None
      | _ \<Rightarrow> None)"

definition DecimalDigits :: "string \<Rightarrow> nat option" where
  \<comment> \<open>one or more decimal digits, and nothing else\<close>
  "DecimalDigits ds =
     (if ds \<noteq> [] \<and> list_all isDigit ds then Some (digitsValue 10 ds) else None)"

definition SignedInteger :: "string \<Rightarrow> int option" where
  "SignedInteger s =
     (case s of
        [] \<Rightarrow> None
      | c # ds \<Rightarrow>
          if c = CHR ''+'' then map_option int (DecimalDigits ds)
          else if c = CHR ''-'' then map_option (\<lambda>n. - int n) (DecimalDigits ds)
          else map_option int (DecimalDigits s))"

definition ExponentPart :: "string \<Rightarrow> int option" where
  \<comment> \<open>what follows the mantissa: nothing (exponent 0), or \<^verbatim>\<open>e\<close>/\<^verbatim>\<open>E\<close> and a signed integer\<close>
  "ExponentPart s =
     (case s of
        [] \<Rightarrow> Some 0
      | c # r \<Rightarrow> if c = CHR ''e'' \<or> c = CHR ''E'' then SignedInteger r else None)"

definition pow10 :: "int \<Rightarrow> rat" where
  "pow10 k = (if 0 \<le> k then 10 ^ nat k else 1 / 10 ^ nat (- k))"

definition StrUnsignedDecimalLiteral :: "string \<Rightarrow> number" where
  "StrUnsignedDecimalLiteral t =
     (if t = ''Infinity'' then PosInfinity
      else
        let ip = takeWhile isDigit t;
            r1 = dropWhile isDigit t;
            fp = (case r1 of [] \<Rightarrow> [] | c # r \<Rightarrow>
                    if c = CHR ''.'' then takeWhile isDigit r else []);
            r2 = (case r1 of [] \<Rightarrow> [] | c # r \<Rightarrow>
                    if c = CHR ''.'' then dropWhile isDigit r else r1)
        in if ip = [] \<and> fp = [] then NaN
           else case ExponentPart r2 of
                  None \<Rightarrow> NaN
                | Some e \<Rightarrow>
                    binary64
                      (of_nat (digitsValue 10 (ip @ fp)) * pow10 (e - int (length fp))))"

definition StrDecimalLiteral :: "string \<Rightarrow> number" where
  "StrDecimalLiteral t =
     (case t of
        [] \<Rightarrow> NaN
      | c # r \<Rightarrow>
          if c = CHR ''+'' then StrUnsignedDecimalLiteral r
          else if c = CHR ''-'' then negate (StrUnsignedDecimalLiteral r)
          else StrUnsignedDecimalLiteral t)"

definition Number :: "string \<Rightarrow> number" where
  "Number s =
     (let t = trim s in
      if t = [] then Finite 0
      else case NonDecimalIntegerLiteral t of
             Some n \<Rightarrow> binary64 (of_nat n)
           | None \<Rightarrow> StrDecimalLiteral t)"

section \<open>The numeric locale disambiguator (\<^verbatim>\<open>src/engine/detector.ts\<close>)\<close>

definition minus_sign :: regexp where
  \<comment> \<open>\<^verbatim>\<open>-?\<close>\<close>
  "minus_sign = Opt (Lit (CHR ''-''))"

definition US_THOUSANDS :: regexp where
  \<comment> \<open>\<^verbatim>\<open>/^-?\d{1,3}(,\d{3})+$/\<close>\<close>
  "US_THOUSANDS =
     Seq [minus_sign, Between 1 3 Digit, OneOrMore (Then (Lit (CHR '','')) (Times 3 Digit))]"

definition EU_DECIMAL :: regexp where
  \<comment> \<open>\<^verbatim>\<open>/^-?\d+(,\d+)$/\<close>\<close>
  "EU_DECIMAL =
     Seq [minus_sign, OneOrMore Digit, Then (Lit (CHR '','')) (OneOrMore Digit)]"

definition EU_THOUSANDS :: regexp where
  \<comment> \<open>\<^verbatim>\<open>/^-?\d{1,3}(\.\d{3})+$/\<close>\<close>
  "EU_THOUSANDS =
     Seq [minus_sign, Between 1 3 Digit, OneOrMore (Then (Lit (CHR ''.'')) (Times 3 Digit))]"

definition number_or_null :: "number \<Rightarrow> number option" where
  \<comment> \<open>\<^verbatim>\<open>isNaN(n) ? null : n\<close>\<close>
  "number_or_null n = (if isNaN n then None else Some n)"

definition parseNumber :: "string \<Rightarrow> number option" where
  \<comment> \<open>\<^verbatim>\<open>parseNumber\<close>, lines 114 to 164; \<open>None\<close> is \<^verbatim>\<open>null\<close>\<close>
  "parseNumber value =
     (let trimmed = trim value in
      if trimmed = [] \<or> trimmed = ''-'' then None
      else
        let hasComma = includes_char trimmed (CHR '','');
            hasDot = includes_char trimmed (CHR ''.'')
        in
          if hasComma \<and> hasDot then
            (let lastDot = lastIndexOf trimmed (CHR ''.'');
                 lastComma = lastIndexOf trimmed (CHR '','')
             in if lastComma > lastDot then
                  (let normalized =
                         replaceFirst (CHR '','') (CHR ''.'') (removeAll_char (CHR ''.'') trimmed)
                   in number_or_null (Number normalized))
                else
                  (let normalized = removeAll_char (CHR '','') trimmed
                   in number_or_null (Number normalized)))
          else if hasComma \<and> test US_THOUSANDS trimmed then
            number_or_null (Number (removeAll_char (CHR '','') trimmed))
          else if hasComma \<and> test EU_DECIMAL trimmed then
            number_or_null (Number (replaceFirst (CHR '','') (CHR ''.'') trimmed))
          else if hasDot \<and> test EU_THOUSANDS trimmed then
            number_or_null (Number (removeAll_char (CHR ''.'') trimmed))
          else number_or_null (Number trimmed))"

subsection \<open>The second definition in the file\<close>

text \<open>
  \<^verbatim>\<open>detector.ts\<close> holds a second copy of the module, whose \<^verbatim>\<open>parseNumber\<close> (lines 280
  to 307) decides by three patterns alone.
\<close>

definition EU_NUMBER_PATTERN :: regexp where
  \<comment> \<open>\<^verbatim>\<open>/^-?\d{1,3}(\.\d{3})*(,\d+)?$/\<close>\<close>
  "EU_NUMBER_PATTERN =
     Seq [minus_sign, Between 1 3 Digit, Many (Then (Lit (CHR ''.'')) (Times 3 Digit)),
          Opt (Then (Lit (CHR '','')) (OneOrMore Digit))]"

definition US_NUMBER_PATTERN :: regexp where
  \<comment> \<open>\<^verbatim>\<open>/^-?\d{1,3}(,\d{3})*(\.\d+)?$/\<close>\<close>
  "US_NUMBER_PATTERN =
     Seq [minus_sign, Between 1 3 Digit, Many (Then (Lit (CHR '','')) (Times 3 Digit)),
          Opt (Then (Lit (CHR ''.'')) (OneOrMore Digit))]"

definition PLAIN_NUMBER_PATTERN :: regexp where
  \<comment> \<open>\<^verbatim>\<open>/^-?\d+(\.\d+)?$/\<close>\<close>
  "PLAIN_NUMBER_PATTERN =
     Seq [minus_sign, OneOrMore Digit, Opt (Then (Lit (CHR ''.'')) (OneOrMore Digit))]"

definition parseNumber_patterns :: "string \<Rightarrow> number option" where
  \<comment> \<open>\<^verbatim>\<open>parseNumber\<close>, lines 280 to 307\<close>
  "parseNumber_patterns value =
     (let trimmed = trim value in
      if trimmed = [] \<or> trimmed = ''-'' then None
      else if test PLAIN_NUMBER_PATTERN trimmed then number_or_null (Number trimmed)
      else if test EU_NUMBER_PATTERN trimmed then
        (let normalized =
               replaceFirst (CHR '','') (CHR ''.'') (removeAll_char (CHR ''.'') trimmed)
         in number_or_null (Number normalized))
      else if test US_NUMBER_PATTERN trimmed then
        (let normalized = removeAll_char (CHR '','') trimmed
         in number_or_null (Number normalized))
      else number_or_null (Number trimmed))"

section \<open>Rows and cells (\<^verbatim>\<open>charts/types\<close>)\<close>

text \<open>
  \<^verbatim>\<open>DataRow = Record<string, string | number | boolean | Date | null>\<close>.  A row is a
  plain object: the map of its own properties, from column names to cells.  A \<^verbatim>\<open>Date\<close>
  is an object: the model keeps its identity, which is what \<^verbatim>\<open>Set\<close> compares.

  Reading \<^verbatim>\<open>row[key]\<close> gives the own property if there is one; otherwise the member of
  that name that a plain object inherits from \<^verbatim>\<open>Object.prototype\<close> (a function, or the
  prototype itself for \<^verbatim>\<open>__proto__\<close>), which is the cell \<open>Inherited key\<close>; otherwise
  \<^verbatim>\<open>undefined\<close>, which is \<open>None\<close>.
\<close>

datatype cell = Str string | Num number | Bool bool | DateObj nat | Null | Inherited string

type_synonym DataRow = "string \<rightharpoonup> cell"

definition Object_prototype :: "string list" where
  \<comment> \<open>the names of the members of \<^verbatim>\<open>Object.prototype\<close>\<close>
  "Object_prototype =
     [''constructor'', ''hasOwnProperty'', ''isPrototypeOf'', ''propertyIsEnumerable'',
      ''toLocaleString'', ''toString'', ''valueOf'', ''__proto__'', ''__defineGetter__'',
      ''__defineSetter__'', ''__lookupGetter__'', ''__lookupSetter__'']"

definition property :: "DataRow \<Rightarrow> string \<Rightarrow> cell option" where
  \<comment> \<open>\<^verbatim>\<open>row[key]\<close>\<close>
  "property row key =
     (case row key of
        Some c \<Rightarrow> Some c
      | None \<Rightarrow> if key \<in> set Object_prototype then Some (Inherited key) else None)"

datatype DataType = TString | TNumber | TDate | TBoolean

datatype AggregationType = AggSum | AggMean | AggMedian | AggCount | AggMin | AggMax

text \<open>
  How the runtime prints a number, a \<^verbatim>\<open>Date\<close> and an inherited member
  (\<^verbatim>\<open>Number::toString\<close>, which picks the shortest digits that read back as the same
  binary64 value, \<^verbatim>\<open>Date.prototype.toString\<close>, which depends on the time zone, and the
  source text of a built-in function, which depends on the engine) is a parameter of
  the model.
\<close>

record host =
  numberToString :: "number \<Rightarrow> string"
  dateToString :: "nat \<Rightarrow> string"
  inheritedToString :: "string \<Rightarrow> string"

definition toString :: "host \<Rightarrow> cell \<Rightarrow> string" where
  \<comment> \<open>\<^verbatim>\<open>String(v)\<close>\<close>
  "toString h v =
     (case v of
        Str s \<Rightarrow> s
      | Num n \<Rightarrow> numberToString h n
      | Bool b \<Rightarrow> (if b then ''true'' else ''false'')
      | DateObj d \<Rightarrow> dateToString h d
      | Null \<Rightarrow> ''null''
      | Inherited key \<Rightarrow> inheritedToString h key)"

definition orEmpty :: "cell option \<Rightarrow> cell" where
  \<comment> \<open>\<^verbatim>\<open>v ?? ""\<close>\<close>
  "orEmpty v = (case v of None \<Rightarrow> Str [] | Some Null \<Rightarrow> Str [] | Some c \<Rightarrow> c)"

definition isBlank :: "cell option \<Rightarrow> bool" where
  \<comment> \<open>\<^verbatim>\<open>v == null || v === ""\<close>\<close>
  "isBlank v \<longleftrightarrow> v = None \<or> v = Some Null \<or> v = Some (Str [])"

fun present :: "cell option list \<Rightarrow> cell list" where
  \<comment> \<open>\<^verbatim>\<open>vs.filter((v) => v != null && v !== "")\<close>\<close>
  "present [] = []"
| "present (None # vs) = present vs"
| "present (Some c # vs) = (if isBlank (Some c) then present vs else c # present vs)"

record ColumnMeta =
  name :: string
  detectedType :: DataType
  confirmedType :: DataType
  uniqueValues :: nat
  nullCount :: nat
  sampleValues :: "cell list"
  min_stat :: "number option"
  max_stat :: "number option"
  mean :: "number option"

section \<open>The column type detector (\<^verbatim>\<open>src/engine/detector.ts\<close>)\<close>

definition SAMPLE_SIZE :: nat where
  "SAMPLE_SIZE = 100"

definition DATE_PATTERNS :: "regexp list" where
  "DATE_PATTERNS =
     [Seq [Times 4 Digit, Lit (CHR ''-''), Times 2 Digit, Lit (CHR ''-''), Times 2 Digit],
      Seq [Times 2 Digit, Lit (CHR ''/''), Times 2 Digit, Lit (CHR ''/''), Times 4 Digit],
      Seq [Times 2 Digit, Lit (CHR ''.''), Times 2 Digit, Lit (CHR ''.''), Times 4 Digit],
      Seq [Times 2 Digit, Lit (CHR ''-''), Times 2 Digit, Lit (CHR ''-''), Times 4 Digit],
      Seq [Times 4 Digit, Lit (CHR ''/''), Times 2 Digit, Lit (CHR ''/''), Times 2 Digit]]"

definition BOOLEAN_VALUES :: "string list" where
  "BOOLEAN_VALUES =
     [''true'', ''false'', ''yes'', ''no'', ''1'', ''0'', ''ja'', ''nein'', ''oui'', ''non'']"

definition isBooleanText :: "string \<Rightarrow> bool" where
  \<comment> \<open>\<^verbatim>\<open>BOOLEAN_VALUES.has(v.toLowerCase())\<close>\<close>
  "isBooleanText v \<longleftrightarrow> toLowerCase v \<in> set BOOLEAN_VALUES"

definition isDateText :: "string \<Rightarrow> bool" where
  \<comment> \<open>\<^verbatim>\<open>DATE_PATTERNS.some((p) => p.test(v))\<close>\<close>
  "isDateText v \<longleftrightarrow> list_ex (\<lambda>p. test p v) DATE_PATTERNS"

definition isNumberText :: "string \<Rightarrow> bool" where
  \<comment> \<open>\<^verbatim>\<open>parseNumber(v) !== null\<close>\<close>
  "isNumberText v \<longleftrightarrow> parseNumber v \<noteq> None"

definition ratio :: "nat \<Rightarrow> nat \<Rightarrow> rat" where
  \<comment> \<open>\<^verbatim>\<open>count / length\<close>.  The source compares the binary64 quotient with the binary64
      literal \<^verbatim>\<open>0.8\<close>; for a length below \<open>2^32\<close> that comparison holds exactly when the
      exact quotient exceeds \<open>8/10\<close>.\<close>
  "ratio count len = of_nat count / of_nat len"

definition detectSingleColumnType :: "host \<Rightarrow> cell list \<Rightarrow> DataType" where
  "detectSingleColumnType h values =
     (if length values = 0 then TString
      else
        let stringValues = map (\<lambda>v. trim (toString h v)) values;
            boolCount = length (filter isBooleanText stringValues)
        in if ratio boolCount (length stringValues) > 8 / 10 then TBoolean
           else
             let dateCount = length (filter isDateText stringValues)
             in if ratio dateCount (length stringValues) > 8 / 10 then TDate
                else
                  let numberCount = length (filter isNumberText stringValues)
                  in if ratio numberCount (length stringValues) > 8 / 10 then TNumber
                     else TString)"

definition parsedNumbers :: "host \<Rightarrow> cell option list \<Rightarrow> number list" where
  \<comment> \<open>\<^verbatim>\<open>allValues.map((v) => parseNumber(String(v ?? ""))).filter((n) => n !== null)\<close>\<close>
  "parsedNumbers h allValues =
     List.map_filter (\<lambda>v. parseNumber (toString h (orEmpty v))) allValues"

definition detectColumn :: "host \<Rightarrow> DataRow list \<Rightarrow> DataRow list \<Rightarrow> string \<Rightarrow> ColumnMeta" where
  \<comment> \<open>the function that \<^verbatim>\<open>headers.map((name) => ...)\<close> applies to every header\<close>
  "detectColumn h data sample = (\<lambda>name.
      let values = present (map (\<lambda>row. property row name) sample);
          detectedType = detectSingleColumnType h values;
          allValues = map (\<lambda>row. property row name) data;
          nullCount = length (filter isBlank allValues);
          uniqueValues = length (remdups (present allValues));
          sampleValues = take 5 values;
          meta = \<lparr> name = name, detectedType = detectedType, confirmedType = detectedType,
                   uniqueValues = uniqueValues, nullCount = nullCount,
                   sampleValues = sampleValues,
                   min_stat = None, max_stat = None, mean = None \<rparr>
      in if detectedType = TNumber then
           (let nums = parsedNumbers h allValues
            in if length nums > 0 then
                 meta \<lparr> min_stat := Some (Math_min nums),
                        max_stat := Some (Math_max nums),
                        mean := Some (divideBy (sum_reduce nums) (length nums)) \<rparr>
               else meta)
         else meta)"

definition detectColumnTypes :: "host \<Rightarrow> DataRow list \<Rightarrow> string list \<Rightarrow> ColumnMeta list" where
  "detectColumnTypes h data headers =
     (let sample = take SAMPLE_SIZE data
      in map (detectColumn h data sample) headers)"

section \<open>Grouping and aggregation (\<^verbatim>\<open>src/engine/mapper.ts\<close>)\<close>

fun positive :: "number \<Rightarrow> bool" where
  \<comment> \<open>a comparator result that moves the first argument behind the second: \<^verbatim>\<open>v > 0\<close>\<close>
  "positive PosInfinity = True"
| "positive (Finite q) = (0 < q)"
| "positive n = False"

fun insert_sorted :: "number \<Rightarrow> number list \<Rightarrow> number list" where
  "insert_sorted x [] = [x]"
| "insert_sorted x (y # ys) =
     (if positive (subtract x y) then y # insert_sorted x ys else x # y # ys)"

definition sort_numbers :: "number list \<Rightarrow> number list" where
  \<comment> \<open>\<^verbatim>\<open>[...values].sort((a, b) => a - b)\<close>: a stable sort.  With a NaN among the
      values the comparator is inconsistent and the runtime may order them as it likes;
      the model then gives what a stable insertion sort gives.\<close>
  "sort_numbers xs = foldr insert_sorted xs []"

definition aggregate :: "number list \<Rightarrow> AggregationType \<Rightarrow> number" where
  "aggregate values method =
     (if length values = 0 then Finite 0
      else case method of
          AggSum \<Rightarrow> sum_reduce values
        | AggMean \<Rightarrow> divideBy (sum_reduce values) (length values)
        | AggMedian \<Rightarrow>
            (let sorted = sort_numbers values;
                 mid = length sorted div 2
             in if length sorted mod 2 \<noteq> 0 then sorted ! mid
                else divideBy (add (sorted ! (mid - 1)) (sorted ! mid)) 2)
        | AggCount \<Rightarrow> Finite (of_nat (length values))
        | AggMin \<Rightarrow> Math_min values
        | AggMax \<Rightarrow> Math_max values)"

record Group =
  category :: string
  val :: number

type_synonym groups = "(string \<times> number list) list"

fun push_value :: "string \<Rightarrow> number \<Rightarrow> groups \<Rightarrow> groups" where
  \<comment> \<open>\<^verbatim>\<open>if (!groups.has(c)) groups.set(c, []); groups.get(c).push(v)\<close> on a \<^verbatim>\<open>Map\<close>,
      which keeps its keys in the order of their insertion\<close>
  "push_value c v [] = [(c, [v])]"
| "push_value c v ((k, vs) # g) =
     (if k = c then (k, vs @ [v]) # g else (k, vs) # push_value c v g)"

definition rowCategory :: "host \<Rightarrow> string \<Rightarrow> DataRow \<Rightarrow> string" where
  \<comment> \<open>\<^verbatim>\<open>String(row[categoryColumn] ?? "")\<close>\<close>
  "rowCategory h categoryColumn row = toString h (orEmpty (property row categoryColumn))"

definition rowValue :: "host \<Rightarrow> string \<Rightarrow> DataRow \<Rightarrow> number option" where
  \<comment> \<open>\<^verbatim>\<open>typeof rawValue === "number" ? rawValue : parseNumber(String(rawValue ?? ""))\<close>\<close>
  "rowValue h valueColumn row =
     (case property row valueColumn of
        Some (Num n) \<Rightarrow> Some n
      | rawValue \<Rightarrow> parseNumber (toString h (orEmpty rawValue)))"

fun collect :: "host \<Rightarrow> string \<Rightarrow> string \<Rightarrow> groups \<Rightarrow> DataRow list \<Rightarrow> groups" where
  \<comment> \<open>the loop \<^verbatim>\<open>for (const row of data)\<close>\<close>
  "collect h categoryColumn valueColumn g [] = g"
| "collect h categoryColumn valueColumn g (row # data) =
     (case rowValue h valueColumn row of
        None \<Rightarrow> collect h categoryColumn valueColumn g data
      | Some v \<Rightarrow>
          collect h categoryColumn valueColumn
            (push_value (rowCategory h categoryColumn row) v g) data)"

definition groupAndAggregate ::
  "host \<Rightarrow> DataRow list \<Rightarrow> string \<Rightarrow> string \<Rightarrow> AggregationType \<Rightarrow> Group list" where
  "groupAndAggregate h data categoryColumn valueColumn aggregation =
     map (\<lambda>(c, values). \<lparr> category = c, val = aggregate values aggregation \<rparr>)
       (collect h categoryColumn valueColumn [] data)"

section \<open>The mapping validator (\<^verbatim>\<open>engine/validator\<close>)\<close>

text \<open>
  \<^verbatim>\<open>DimensionDefinition\<close>; its fields \<^verbatim>\<open>id\<close> and \<^verbatim>\<open>name\<close> are \<open>dim_id\<close> and \<open>dim_name\<close>
  here.  \<^verbatim>\<open>MappingConfig = Record<string, string | string[]>\<close>.
\<close>

record DimensionDefinition =
  dim_id :: string
  dim_name :: string
  description :: string
  required :: bool
  acceptedTypes :: "DataType list"
  multiple :: bool
  defaultAggregation :: "AggregationType option"

datatype mapped = Single string | Multi "string list"

type_synonym MappingConfig = "string \<rightharpoonup> mapped"

record ValidationError =
  dimensionId :: string
  message :: string

type_synonym ValidationWarning = ValidationError

record ValidationResult =
  isValid :: bool
  errors :: "ValidationError list"
  warnings :: "ValidationWarning list"

definition typeName :: "DataType \<Rightarrow> string" where
  "typeName t =
     (case t of TString \<Rightarrow> ''string'' | TNumber \<Rightarrow> ''number''
      | TDate \<Rightarrow> ''date'' | TBoolean \<Rightarrow> ''boolean'')"

definition quoted :: "string \<Rightarrow> string" where
  \<comment> \<open>the text between two double quotes\<close>
  "quoted s = [CHR 0x22] @ s @ [CHR 0x22]"

definition falsy :: "mapped option \<Rightarrow> bool" where
  \<comment> \<open>\<^verbatim>\<open>!mapped\<close>: \<^verbatim>\<open>undefined\<close> and the empty string; every array is truthy\<close>
  "falsy m \<longleftrightarrow> m = None \<or> m = Some (Single [])"

definition isEmptyArray :: "mapped option \<Rightarrow> bool" where
  \<comment> \<open>\<^verbatim>\<open>Array.isArray(mapped) && mapped.length === 0\<close>\<close>
  "isEmptyArray m \<longleftrightarrow> m = Some (Multi [])"

definition columnNamesOf :: "mapped \<Rightarrow> string list" where
  \<comment> \<open>\<^verbatim>\<open>Array.isArray(mapped) ? mapped : [mapped]\<close>\<close>
  "columnNamesOf m = (case m of Single c \<Rightarrow> [c] | Multi cs \<Rightarrow> cs)"

definition tooMany :: "mapped \<Rightarrow> bool" where
  \<comment> \<open>\<^verbatim>\<open>Array.isArray(mapped) && mapped.length > 1\<close>\<close>
  "tooMany m = (case m of Single c \<Rightarrow> False | Multi cs \<Rightarrow> length cs > 1)"

definition requiredError :: "DimensionDefinition \<Rightarrow> ValidationError" where
  "requiredError dimen =
     \<lparr> dimensionId = dim_id dimen, message = quoted (dim_name dimen) @ '' is required.'' \<rparr>"

definition notFoundError :: "DimensionDefinition \<Rightarrow> string \<Rightarrow> ValidationError" where
  "notFoundError dimen colName =
     \<lparr> dimensionId = dim_id dimen,
       message = ''Column '' @ quoted colName @ '' not found in data.'' \<rparr>"

definition typeWarning :: "DimensionDefinition \<Rightarrow> string \<Rightarrow> ColumnMeta \<Rightarrow> ValidationWarning" where
  "typeWarning dimen colName col =
     \<lparr> dimensionId = dim_id dimen,
       message = quoted colName @ '' is '' @ typeName (confirmedType col) @ '', but ''
                 @ quoted (dim_name dimen) @ '' expects ''
                 @ join '' or '' (map typeName (acceptedTypes dimen)) @ ''.'' \<rparr>"

definition onlyOneError :: "DimensionDefinition \<Rightarrow> ValidationError" where
  "onlyOneError dimen =
     \<lparr> dimensionId = dim_id dimen,
       message = quoted (dim_name dimen) @ '' accepts only one column.'' \<rparr>"

fun checkColumns ::
  "ColumnMeta list \<Rightarrow> DimensionDefinition \<Rightarrow> ValidationError list \<times> ValidationWarning list
     \<Rightarrow> string list \<Rightarrow> ValidationError list \<times> ValidationWarning list" where
  \<comment> \<open>the loop \<^verbatim>\<open>for (const colName of columnNames)\<close>\<close>
  "checkColumns columns dimen (es, ws) [] = (es, ws)"
| "checkColumns columns dimen (es, ws) (colName # rest) =
     (case find (\<lambda>c. name c = colName) columns of
        None \<Rightarrow> checkColumns columns dimen (es @ [notFoundError dimen colName], ws) rest
      | Some col \<Rightarrow>
          if confirmedType col \<notin> set (acceptedTypes dimen)
          then checkColumns columns dimen (es, ws @ [typeWarning dimen colName col]) rest
          else checkColumns columns dimen (es, ws) rest)"

definition checkDimension ::
  "MappingConfig \<Rightarrow> ColumnMeta list \<Rightarrow> ValidationError list \<times> ValidationWarning list
     \<Rightarrow> DimensionDefinition \<Rightarrow> ValidationError list \<times> ValidationWarning list" where
  \<comment> \<open>one round of the loop \<^verbatim>\<open>for (const dim of dimensions)\<close>\<close>
  "checkDimension mapping columns acc dimen =
     (let mapped = mapping (dim_id dimen)
      in if required dimen \<and> (falsy mapped \<or> isEmptyArray mapped)
         then (fst acc @ [requiredError dimen], snd acc)
         else if falsy mapped then acc
         else case mapped of
                None \<Rightarrow> acc
              | Some m \<Rightarrow>
                  (let checked = checkColumns columns dimen acc (columnNamesOf m)
                   in if \<not> multiple dimen \<and> tooMany m
                      then (fst checked @ [onlyOneError dimen], snd checked)
                      else checked))"

definition validateMapping ::
  "DimensionDefinition list \<Rightarrow> MappingConfig \<Rightarrow> ColumnMeta list \<Rightarrow> ValidationResult" where
  "validateMapping dimensions mapping columns =
     (let final = foldl (checkDimension mapping columns) ([], []) dimensions
      in \<lparr> isValid = (length (fst final) = 0), errors = fst final, warnings = snd final \<rparr>)"

definition isTypeCompatible :: "DataType \<Rightarrow> DataType list \<Rightarrow> bool" where
  "isTypeCompatible columnType accepted \<longleftrightarrow> columnType \<in> set accepted"

text \<open>The dimensions of the column chart (\<^verbatim>\<open>src/charts/column-chart/index.ts\<close>).\<close>

definition columnChart_dimensions :: "DimensionDefinition list" where
  "columnChart_dimensions =
     [\<lparr> dim_id = ''x'', dim_name = ''Categories (X Axis)'',
        description = ''The categories to compare - one bar per value'',
        required = True, acceptedTypes = [TString, TNumber, TDate], multiple = False,
        defaultAggregation = None \<rparr>,
      \<lparr> dim_id = ''y'', dim_name = ''Values (Y Axis)'',
        description = ''The numeric values determining bar heights'',
        required = True, acceptedTypes = [TNumber], multiple = False,
        defaultAggregation = None \<rparr>,
      \<lparr> dim_id = ''color'', dim_name = ''Color (Series)'',
        description = ''Optional: split bars into colored groups'',
        required = False, acceptedTypes = [TString], multiple = False,
        defaultAggregation = None \<rparr>]"

section \<open>The row parser (\<^verbatim>\<open>engine/parser\<close>)\<close>

text \<open>
  \<^verbatim>\<open>parseText\<close> hands the trimmed text to \<^verbatim>\<open>Papa.parse\<close> of the PapaParse library, with
  a fixed configuration.  The library is a parameter of the model: a function from the
  text to the three parts of its result that \<^verbatim>\<open>parseText\<close> reads.
\<close>

record PapaError =
  error_row :: "nat option"
  error_message :: string

record PapaResult =
  papa_data :: "DataRow list"
  papa_errors :: "PapaError list"
  papa_fields :: "string list option"

record ParseResult =
  parsed_data :: "DataRow list"
  parsed_columns :: "ColumnMeta list"
  rawHeaders :: "string list"
  rowCount :: nat
  parse_errors :: "string list"

function decimal :: "nat \<Rightarrow> string" where
  \<comment> \<open>a non-negative integer in a template string\<close>
  "decimal n =
     (if n < 10 then [char_of (48 + n)] else decimal (n div 10) @ [char_of (48 + n mod 10)])"
  by pat_completeness auto
termination
  by (relation "measure id") auto

definition errorText :: "PapaError \<Rightarrow> string" where
  \<comment> \<open>\<^verbatim>\<open>`Row ${e.row}: ${e.message}`\<close>\<close>
  "errorText e =
     ''Row '' @ (case error_row e of None \<Rightarrow> ''undefined'' | Some r \<Rightarrow> decimal r)
     @ '': '' @ error_message e"

definition parseText :: "host \<Rightarrow> (string \<Rightarrow> PapaResult) \<Rightarrow> string \<Rightarrow> ParseResult" where
  "parseText h Papa_parse text =
     (let trimmed = trim text
      in if trimmed = [] then
           \<lparr> parsed_data = [], parsed_columns = [], rawHeaders = [], rowCount = 0,
             parse_errors = [''Empty input''] \<rparr>
         else
           let result = Papa_parse trimmed
           in if length (papa_errors result) > 0 \<and> length (papa_data result) = 0 then
                \<lparr> parsed_data = [], parsed_columns = [], rawHeaders = [], rowCount = 0,
                  parse_errors = map errorText (papa_errors result) \<rparr>
              else
                let headers = (case papa_fields result of None \<Rightarrow> [] | Some fs \<Rightarrow> fs);
                    data = papa_data result;
                    columns = detectColumnTypes h data headers;
                    errs = map errorText (papa_errors result)
                in \<lparr> parsed_data = data, parsed_columns = columns, rawHeaders = headers,
                     rowCount = length data, parse_errors = errs \<rparr>)"

subsection \<open>The library, from the specification\<close>

fun splitOn :: "char \<Rightarrow> string \<Rightarrow> string list" where
  "splitOn d [] = [[]]"
| "splitOn d (c # s) =
     (if c = d then [] # splitOn d s
      else case splitOn d s of [] \<Rightarrow> [[c]] | x # xs \<Rightarrow> (c # x) # xs)"

definition detectDelimiter :: "string \<Rightarrow> char" where
  "detectDelimiter firstLine =
     (let commas = count_list firstLine (CHR '','');
          tabs = count_list firstLine (CHR 0x09);
          semicolons = count_list firstLine (CHR '';'')
      in if tabs \<le> commas \<and> semicolons \<le> commas then CHR '',''
         else if semicolons \<le> tabs then CHR 0x09
         else CHR '';'')"

definition Papa_parse_spec :: "string \<Rightarrow> PapaResult" where
  \<comment> \<open>Modelled from the spec: \<^verbatim>\<open>Papa.parse\<close> belongs to the PapaParse library, which is not
      among the sources.  Section 4.2: the field delimiter is detected among comma, tab
      and semicolon; the first row holds the headers, trimmed of surrounding white
      space; fully blank lines are skipped; no cell is coerced, every value stays a raw
      string.  The spec does not say how the delimiter is detected: the model takes the
      candidate that occurs most often in the first line, the earlier one on a tie.  It
      does not say when a row-level error arises: the model reports none.\<close>
  "Papa_parse_spec input =
     (let ls = filter (\<lambda>l. trim l \<noteq> []) (splitOn (CHR 0x0A) input)
      in case ls of
           [] \<Rightarrow> \<lparr> papa_data = [], papa_errors = [], papa_fields = None \<rparr>
         | headerLine # rest \<Rightarrow>
             (let d = detectDelimiter headerLine;
                  headers = map trim (splitOn d headerLine);
                  toRow = (\<lambda>l. map_of (zip headers (map Str (splitOn d l))))
              in \<lparr> papa_data = map toRow rest, papa_errors = [],
                   papa_fields = Some headers \<rparr>))"

section \<open>Example data\<close>

definition sample_host :: host where
  \<comment> \<open>a host for the examples, whose cells are strings or whole numbers\<close>
  "sample_host =
     \<lparr> numberToString = (\<lambda>n. case n of NaN \<Rightarrow> ''NaN'' | PosInfinity \<Rightarrow> ''Infinity''
                               | NegInfinity \<Rightarrow> ''-Infinity''
                               | Finite q \<Rightarrow> (if q < 0 then ''-'' else [])
                                              @ decimal (nat \<lfloor>\<bar>q\<bar>\<rfloor>)),
       dateToString = (\<lambda>d. ''Thu Jan 01 1970''),
       inheritedToString = (\<lambda>key. if key = ''__proto__'' then ''[object Object]''
                                   else ''function '' @ key @ ''() { [native code] }'') \<rparr>"

definition sales_rows :: "DataRow list" where
  \<comment> \<open>the five rows of the grouping example\<close>
  "sales_rows =
     [[''Region'' \<mapsto> Str ''North'', ''Sales'' \<mapsto> Str ''100''],
      [''Region'' \<mapsto> Str ''South'', ''Sales'' \<mapsto> Str ''200''],
      [''Region'' \<mapsto> Str ''North'', ''Sales'' \<mapsto> Str ''150''],
      [''Region'' \<mapsto> Str ''South'', ''Sales'' \<mapsto> Str ''250''],
      [''Region'' \<mapsto> Str ''East'', ''Sales'' \<mapsto> Str ''300'']]"

section \<open>Grouped digit strings\<close>

definition grouped :: "char \<Rightarrow> string \<Rightarrow> string list \<Rightarrow> string" where
  \<comment> \<open>leading digits followed by groups, each behind the separator\<close>
  "grouped sep lead gs = lead @ concat (map (\<lambda>g. sep # g) gs)"

definition groupedShape :: "string \<Rightarrow> string list \<Rightarrow> bool" where
  \<comment> \<open>one to three digits, then one or more groups of exactly three digits\<close>
  "groupedShape lead gs \<longleftrightarrow>
     list_all isDigit lead \<and> 1 \<le> length lead \<and> length lead \<le> 3 \<and> gs \<noteq> [] \<and>
     list_all (\<lambda>g. length g = 3 \<and> list_all isDigit g) gs"

section \<open>What the disambiguator converts\<close>

definition converted :: "string \<Rightarrow> string" where
  \<comment> \<open>the text that \<open>parseNumber\<close> (lines 114 to 164) hands to \<open>Number\<close> for a trimmed
      input: by the branch taken, the input with its grouping separators deleted and
      its decimal comma turned into a dot, or the input as it is\<close>
  "converted t =
     (if CHR '','' \<in> set t \<and> CHR ''.'' \<in> set t then
        (if lastIndexOf t (CHR '','') > lastIndexOf t (CHR ''.'')
         then replaceFirst (CHR '','') (CHR ''.'') (removeAll_char (CHR ''.'') t)
         else removeAll_char (CHR '','') t)
      else if CHR '','' \<in> set t \<and> test US_THOUSANDS t then removeAll_char (CHR '','') t
      else if CHR '','' \<in> set t \<and> test EU_DECIMAL t then replaceFirst (CHR '','') (CHR ''.'') t
      else if CHR ''.'' \<in> set t \<and> test EU_THOUSANDS t then removeAll_char (CHR ''.'') t
      else t)"

section \<open>Match ratios\<close>

definition matchRatio :: "(string \<Rightarrow> bool) \<Rightarrow> host \<Rightarrow> cell list \<Rightarrow> rat" where
  \<comment> \<open>the share of the sampled values whose trimmed text a classifier accepts\<close>
  "matchRatio accepts h values =
     of_nat (length (filter (\<lambda>v. accepts (trim (toString h v))) values))
       / of_nat (length values)"

definition four_of_five :: "cell list" where
  \<comment> \<open>a sample of five values, four of which are boolean words\<close>
  "four_of_five = [Str ''true'', Str ''false'', Str ''yes'', Str ''no'', Str ''maybe'']"

section \<open>Contributions to a grouping\<close>


definition firstSeen :: "'a list \<Rightarrow> 'a list" where
  \<comment> \<open>the distinct elements of a list, each at its first occurrence\<close>
  "firstSeen xs = rev (remdups (rev xs))"




section \<open>A satisfied dimension\<close>

definition columnExists :: "ColumnMeta list \<Rightarrow> string \<Rightarrow> bool" where
  "columnExists columns colName \<longleftrightarrow> colName \<in> set (map name columns)"

definition satisfied :: "MappingConfig \<Rightarrow> ColumnMeta list \<Rightarrow> DimensionDefinition \<Rightarrow> bool" where
  \<comment> \<open>a dimension that is left out (no entry, the empty string or the empty list) is not
      required; a dimension that is filled names existing columns only, and more than
      one only if it allows several.  The types of the columns play no part.\<close>
  "satisfied mapping columns dimen =
     (case mapping (dim_id dimen) of
        None \<Rightarrow> \<not> required dimen
      | Some m \<Rightarrow>
          if m = Single [] \<or> m = Multi [] then \<not> required dimen
          else list_all (columnExists columns) (columnNamesOf m)
               \<and> (multiple dimen \<or> \<not> tooMany m))"

definition typeWarnings ::
  "ColumnMeta list \<Rightarrow> DimensionDefinition \<Rightarrow> string list \<Rightarrow> ValidationWarning list" where
  \<comment> \<open>the warnings for the named columns that exist and whose confirmed type the
      dimension does not accept\<close>
  "typeWarnings columns dimen colNames =
     concat (map (\<lambda>colName.
       case find (\<lambda>c. name c = colName) columns of
         None \<Rightarrow> []
       | Some col \<Rightarrow>
           if confirmedType col \<notin> set (acceptedTypes dimen)
           then [typeWarning dimen colName col] else []) colNames)"

definition errorsOf ::
  "MappingConfig \<Rightarrow> ColumnMeta list \<Rightarrow> DimensionDefinition \<Rightarrow> ValidationError list" where
  \<comment> \<open>the errors that one dimension adds\<close>
  "errorsOf mapping columns dimen =
     (case mapping (dim_id dimen) of
        None \<Rightarrow> (if required dimen then [requiredError dimen] else [])
      | Some m \<Rightarrow>
          if m = Single [] \<or> m = Multi []
          then (if required dimen then [requiredError dimen] else [])
          else map (notFoundError dimen)
                 (filter (\<lambda>c. \<not> columnExists columns c) (columnNamesOf m))
               @ (if \<not> multiple dimen \<and> tooMany m then [onlyOneError dimen] else []))"

definition warningsOf ::
  "MappingConfig \<Rightarrow> ColumnMeta list \<Rightarrow> DimensionDefinition \<Rightarrow> ValidationWarning list" where
  \<comment> \<open>the warnings that one dimension adds\<close>
  "warningsOf mapping columns dimen =
     (case mapping (dim_id dimen) of
        None \<Rightarrow> []
      | Some m \<Rightarrow>
          if m = Single [] \<or> (required dimen \<and> m = Multi []) then []
          else typeWarnings columns dimen (columnNamesOf m))"

definition chart_columns :: "ColumnMeta list" where
  \<comment> \<open>the two columns of the validator's tests\<close>
  "chart_columns =
     [\<lparr> name = ''Category'', detectedType = TString, confirmedType = TString,
        uniqueValues = 3, nullCount = 0, sampleValues = [],
        min_stat = None, max_stat = None, mean = None \<rparr>,
      \<lparr> name = ''Value'', detectedType = TNumber, confirmedType = TNumber,
        uniqueValues = 3, nullCount = 0, sampleValues = [],
        min_stat = None, max_stat = None, mean = None \<rparr>]"

definition complete_mapping :: MappingConfig where
  "complete_mapping = [''x'' \<mapsto> Single ''Category'', ''y'' \<mapsto> Single ''Value'']"

definition mapping_without_y :: MappingConfig where
  "mapping_without_y = [''x'' \<mapsto> Single ''Category'']"

definition mapping_with_unknown_color :: MappingConfig where
  "mapping_with_unknown_color =
     [''x'' \<mapsto> Single ''Category'', ''y'' \<mapsto> Single ''Value'', ''color'' \<mapsto> Single ''Series'']"

definition swapped_mapping :: MappingConfig where
  "swapped_mapping = [''x'' \<mapsto> Single ''Value'', ''y'' \<mapsto> Single ''Category'']"

section \<open>The parsing example\<close>

definition csv_example :: string where
  \<comment> \<open>\<^verbatim>\<open>"Name,Value\nAlpha,100\nBeta,200\nGamma,300"\<close>\<close>
  "csv_example =
     ''Name,Value'' @ [CHR 0x0A] @ ''Alpha,100'' @ [CHR 0x0A] @ ''Beta,200'' @ [CHR 0x0A]
     @ ''Gamma,300''"

section \<open>A dataset longer than the sample\<close>

definition long_rows :: "DataRow list" where
  \<comment> \<open>103 rows of one column: 100 times \<^verbatim>\<open>2\<close>, then \<^verbatim>\<open>9\<close>, \<^verbatim>\<open>n/a\<close> and \<^verbatim>\<open>null\<close>\<close>
  "long_rows =
     replicate 100 [''v'' \<mapsto> Str ''2'']
     @ [[''v'' \<mapsto> Str ''9''], [''v'' \<mapsto> Str ''n/a''], [''v'' \<mapsto> Null]]"

section \<open>Evaluation\<close>

lemmas string_defs = trim_def isWhiteSpace_def includes_char_def lastIndexOf_def
  removeAll_char_def isDigit_def

lemma Times_numeral: "Times (numeral k) r = Then r (Times (pred_numeral k) r)"
  by (simp add: numeral_eq_Suc)

lemma UpTo_numeral: "UpTo (numeral k) r = Opt (Then r (UpTo (pred_numeral k) r))"
  by (simp add: numeral_eq_Suc)

lemmas regexp_defs = Opt_def OneOrMore_def Between_def minus_sign_def Times_numeral
  UpTo_numeral

lemma OVERFLOW_BOUND_large: "10 ^ 18 < OVERFLOW_BOUND"
  by (simp add: OVERFLOW_BOUND_def)

lemma binary64_small:
  assumes "\<bar>q\<bar> \<le> 10 ^ 18"
  shows "binary64 q = Finite q"
proof -
  from assms OVERFLOW_BOUND_large have "q < OVERFLOW_BOUND" "- OVERFLOW_BOUND < q"
    by linarith+
  then show ?thesis by (simp add: binary64_def)
qed

lemma binary64_not_NaN: "binary64 q \<noteq> NaN"
  by (simp add: binary64_def)

lemmas Number_defs = Number_def NonDecimalIntegerLiteral_def StrDecimalLiteral_def
  StrUnsignedDecimalLiteral_def ExponentPart_def SignedInteger_def DecimalDigits_def
  digitsValue_def digitValue_def pow10_def isHexDigit_def isOctalDigit_def isBinaryDigit_def
  binary64_small

lemmas row_defs = rowValue_def rowCategory_def property_def Object_prototype_def
  toString_def orEmpty_def

text \<open>A literal beyond the binary64 range gives an infinity, as the spelled-out one does.\<close>

lemma Number_overflows:
  "parseNumber ''1e400'' = Some PosInfinity" "parseNumber ''-1e400'' = Some NegInfinity"
  "parseNumber ''Infinity'' = Some PosInfinity"
  by (simp_all add: parseNumber_def string_defs Number_def NonDecimalIntegerLiteral_def
      StrDecimalLiteral_def StrUnsignedDecimalLiteral_def ExponentPart_def SignedInteger_def
      DecimalDigits_def digitsValue_def digitValue_def pow10_def binary64_def
      OVERFLOW_BOUND_def number_or_null_def isNaN_def)

lemma number_or_null_not_NaN: "number_or_null n \<noteq> Some NaN"
  by (simp add: number_or_null_def isNaN_def)

lemma parse_sales:
  "parseNumber ''100'' = Some (Finite 100)"
  "parseNumber ''200'' = Some (Finite 200)"
  "parseNumber ''150'' = Some (Finite 150)"
  "parseNumber ''250'' = Some (Finite 250)"
  "parseNumber ''300'' = Some (Finite 300)"
  by (simp_all add: parseNumber_def string_defs Number_defs number_or_null_def isNaN_def)

lemma collect_sales:
  "collect h ''Region'' ''Sales'' [] sales_rows =
     [(''North'', [Finite 100, Finite 150]), (''South'', [Finite 200, Finite 250]),
      (''East'', [Finite 300])]"
  by (simp add: sales_rows_def row_defs parse_sales)

section \<open>The grouping example\<close>

text \<open>
  C6.  On the five rows North 100, South 200, North 150, South 250, East 300, grouping
  by Region and summing Sales gives exactly North 250, South 450, East 300, in this
  order; with the mean, the group of North has the value 125.  No cell is a number or
  a date, so this holds for every host.
\<close>

theorem groupAndAggregate_sales_example:
  "groupAndAggregate h sales_rows ''Region'' ''Sales'' AggSum =
     [\<lparr> category = ''North'', val = Finite 250 \<rparr>,
      \<lparr> category = ''South'', val = Finite 450 \<rparr>,
      \<lparr> category = ''East'', val = Finite 300 \<rparr>]
   \<and> find (\<lambda>g. category g = ''North'')
         (groupAndAggregate h sales_rows ''Region'' ''Sales'' AggMean)
       = Some \<lparr> category = ''North'', val = Finite 125 \<rparr>"
  by (simp add: groupAndAggregate_def collect_sales aggregate_def sum_reduce_def
      binary64_small)

section \<open>No NaN leaves the disambiguator\<close>

text \<open>
  C10.  For every input string \<open>parseNumber\<close> returns \<^verbatim>\<open>null\<close> or a number that is not
  NaN: every branch passes the result of \<open>Number\<close> through the \<open>isNaN\<close> guard.  This
  holds for the definition of lines 114 to 164 and for the one of lines 280 to 307.
\<close>

theorem parseNumber_never_NaN:
  "parseNumber v \<noteq> Some NaN \<and> parseNumber_patterns v \<noteq> Some NaN"
  by (simp add: parseNumber_def parseNumber_patterns_def Let_def number_or_null_not_NaN)

section \<open>What \<open>test\<close> decides\<close>

lemma star_Cons_iff:
  "c # w \<in> star A \<longleftrightarrow> (\<exists>u v. w = u @ v \<and> c # u \<in> A \<and> v \<in> star A)"
proof
  assume "c # w \<in> star A"
  then show "\<exists>u v. w = u @ v \<and> c # u \<in> A \<and> v \<in> star A"
  proof (induction "c # w" rule: star.induct)
    case (star_app u v)
    show ?case
    proof (cases u)
      case Nil
      with star_app show ?thesis by simp
    next
      case (Cons a u')
      with star_app.hyps(1,2,4) show ?thesis by auto
    qed
  qed
next
  assume "\<exists>u v. w = u @ v \<and> c # u \<in> A \<and> v \<in> star A"
  then obtain u v where "w = u @ v" "c # u \<in> A" "v \<in> star A" by blast
  then show "c # w \<in> star A"
    using star.star_app [of "c # u" A v] by simp
qed

lemma nullable_iff: "nullable r \<longleftrightarrow> [] \<in> lang r"
  by (induction r) (auto intro: star.star_nil)

lemma lang_deriv: "w \<in> lang (deriv c r) \<longleftrightarrow> c # w \<in> lang r"
proof (induction r arbitrary: w)
  case (Then r s)
  show ?case
    by (auto simp: Then nullable_iff Cons_eq_append_conv)
next
  case (Many r)
  show ?case
    by (auto simp: Many star_Cons_iff)
qed auto

lemma test_iff_lang: "test r s \<longleftrightarrow> s \<in> lang r"
  by (induction s arbitrary: r) (simp_all add: nullable_iff lang_deriv)

section \<open>Facts about the string functions\<close>

lemma trim_decompose:
  "\<exists>p q. v = p @ trim v @ q \<and> list_all isWhiteSpace p \<and> list_all isWhiteSpace q"
proof -
  let ?p = "takeWhile isWhiteSpace v"
  let ?w = "dropWhile isWhiteSpace v"
  let ?q = "rev (takeWhile isWhiteSpace (rev ?w))"
  have "rev (dropWhile isWhiteSpace (rev ?w)) @ rev (takeWhile isWhiteSpace (rev ?w)) = ?w"
    by (metis rev_append rev_rev_ident takeWhile_dropWhile_id)
  then have w: "?w = trim v @ ?q"
    by (simp add: trim_def)
  have "v = ?p @ ?w" by simp
  with w have "v = ?p @ trim v @ ?q" by simp
  moreover have "list_all isWhiteSpace ?p"
    by (simp add: list_all_iff) (meson set_takeWhileD)
  moreover have "list_all isWhiteSpace ?q"
    by (simp add: list_all_iff) (meson set_takeWhileD)
  ultimately show ?thesis by blast
qed

lemma set_trim: "\<not> isWhiteSpace c \<Longrightarrow> c \<in> set (trim v) \<longleftrightarrow> c \<in> set v"
proof -
  assume c: "\<not> isWhiteSpace c"
  obtain p q where v: "v = p @ trim v @ q"
    and p: "list_all isWhiteSpace p" and q: "list_all isWhiteSpace q"
    using trim_decompose by blast
  from c p q have "c \<notin> set p" "c \<notin> set q" by (auto simp: list_all_iff)
  moreover have "set v = set p \<union> set (trim v) \<union> set q"
    by (subst v) auto
  ultimately show ?thesis by auto
qed

lemma trim_id:
  assumes "s \<noteq> []" "\<not> isWhiteSpace (hd s)" "\<not> isWhiteSpace (last s)"
  shows "trim s = s"
proof -
  from assms(1,2) have "dropWhile isWhiteSpace s = s"
    by (cases s) simp_all
  moreover from assms(1,3) have "dropWhile isWhiteSpace (rev s) = rev s"
    by (cases "rev s") (simp_all add: last_rev [symmetric] hd_rev)
  ultimately show ?thesis by (simp add: trim_def)
qed

lemma lastIndexFrom_absent: "c \<notin> set s \<Longrightarrow> lastIndexFrom i f c s = f"
  by (induction s arbitrary: i f) auto

lemma lastIndexFrom_append:
  "lastIndexFrom i f c (a @ b) = lastIndexFrom (i + length a) (lastIndexFrom i f c a) c b"
  by (induction a arbitrary: i f) auto

lemma lastIndexFrom_shift:
  "c \<in> set s \<Longrightarrow> lastIndexFrom (k + i) f c s = int k + lastIndexFrom i g c s"
proof (induction s arbitrary: i f g)
  case Nil
  then show ?case by simp
next
  case (Cons x xs)
  show ?case
  proof (cases "c \<in> set xs")
    case True
    from Cons.IH [OF True, of "Suc i"] show ?thesis by simp
  next
    case False
    with Cons.prems have "x = c" by simp
    with False show ?thesis by (simp add: lastIndexFrom_absent)
  qed
qed

lemma lastIndexOf_last:
  assumes "i < length s" "s ! i = c" "\<forall>k. i < k \<and> k < length s \<longrightarrow> s ! k \<noteq> c"
  shows "lastIndexOf s c = int i"
proof -
  have s: "s = take i s @ c # drop (Suc i) s"
    using assms(1,2) id_take_nth_drop [of i s] by simp
  have "c \<notin> set (drop (Suc i) s)"
  proof
    assume "c \<in> set (drop (Suc i) s)"
    then obtain j where "j < length (drop (Suc i) s)" "drop (Suc i) s ! j = c"
      by (auto simp: in_set_conv_nth)
    then have "Suc i + j < length s" "s ! (Suc i + j) = c" by auto
    with assms(3) show False by (metis less_add_Suc1 add_Suc)
  qed
  then have "lastIndexFrom 0 (- 1) c (take i s @ c # drop (Suc i) s) = int i"
    using assms(1) by (simp add: lastIndexFrom_append lastIndexFrom_absent)
  with s show ?thesis by (simp add: lastIndexOf_def)
qed

lemma lastIndexOf_trim:
  "\<exists>k. \<forall>d. \<not> isWhiteSpace d \<and> d \<in> set v \<longrightarrow> lastIndexOf v d = int k + lastIndexOf (trim v) d"
proof -
  obtain p q where v: "v = p @ trim v @ q"
    and p: "list_all isWhiteSpace p" and q: "list_all isWhiteSpace q"
    using trim_decompose by blast
  have "lastIndexOf v d = int (length p) + lastIndexOf (trim v) d"
    if d: "\<not> isWhiteSpace d" "d \<in> set v" for d
  proof -
    from d p q have np: "d \<notin> set p" and nq: "d \<notin> set q" by (auto simp: list_all_iff)
    from d have dt: "d \<in> set (trim v)" by (simp add: set_trim)
    have "lastIndexOf v d = lastIndexFrom 0 (- 1) d (p @ trim v @ q)"
      using v by (simp add: lastIndexOf_def)
    also have "\<dots> = lastIndexFrom (length p) (- 1) d (trim v)"
      using np nq by (simp add: lastIndexFrom_append lastIndexFrom_absent)
    also have "\<dots> = int (length p) + lastIndexFrom 0 (- 1) d (trim v)"
      using lastIndexFrom_shift [OF dt, of "length p" 0] by simp
    finally show ?thesis by (simp add: lastIndexOf_def)
  qed
  then show ?thesis by blast
qed

section \<open>Digit strings\<close>

lemma digit_not_space: "isDigit c \<Longrightarrow> \<not> isWhiteSpace c"
  by (auto simp: isDigit_def isWhiteSpace_def)

lemma digit_not_special:
  "isDigit c \<Longrightarrow> c \<notin> set ''+-.,xXoObBeEI''"
  by (auto simp: isDigit_def)

lemma Then_Digit_iff:
  "s \<in> lang (Then Digit r) \<longleftrightarrow> (\<exists>c v. s = c # v \<and> isDigit c \<and> v \<in> lang r)"
  by (simp, metis append_Cons append_Nil)

lemma Then_Lit_iff:
  "s \<in> lang (Then (Lit a) r) \<longleftrightarrow> (\<exists>v. s = a # v \<and> v \<in> lang r)"
  by simp

lemma lang_Times_Digit: "lang (Times n Digit) = {s. length s = n \<and> list_all isDigit s}"
proof (induction n)
  case 0
  show ?case by auto
next
  case (Suc n)
  have "s \<in> lang (Times (Suc n) Digit) \<longleftrightarrow> length s = Suc n \<and> list_all isDigit s" for s
    unfolding Times.simps Then_Digit_iff by (cases s) (auto simp: Suc)
  then show ?case by blast
qed

lemma lang_UpTo_Digit: "lang (UpTo n Digit) = {s. length s \<le> n \<and> list_all isDigit s}"
proof (induction n)
  case 0
  show ?case by auto
next
  case (Suc n)
  have "s \<in> lang (UpTo (Suc n) Digit) \<longleftrightarrow> length s \<le> Suc n \<and> list_all isDigit s" for s
    unfolding UpTo.simps Opt_def lang.simps(5) Un_iff Then_Digit_iff
    by (cases s) (auto simp: Suc)
  then show ?case by blast
qed

lemma lang_Between_Digit:
  assumes "m \<le> n"
  shows "lang (Between m n Digit) = {s. m \<le> length s \<and> length s \<le> n \<and> list_all isDigit s}"
proof -
  have "s \<in> lang (Between m n Digit) \<longleftrightarrow> m \<le> length s \<and> length s \<le> n \<and> list_all isDigit s"
    for s
  proof
    assume "s \<in> lang (Between m n Digit)"
    then obtain u v where "s = u @ v" "length u = m" "list_all isDigit u"
      "length v \<le> n - m" "list_all isDigit v"
      by (auto simp: Between_def lang_Times_Digit lang_UpTo_Digit)
    with assms show "m \<le> length s \<and> length s \<le> n \<and> list_all isDigit s" by auto
  next
    assume s: "m \<le> length s \<and> length s \<le> n \<and> list_all isDigit s"
    then have "take m s \<in> lang (Times m Digit)" "drop m s \<in> lang (UpTo (n - m) Digit)"
      by (auto simp: lang_Times_Digit lang_UpTo_Digit list_all_iff dest: in_set_takeD in_set_dropD)
    then have "take m s @ drop m s \<in> lang (Between m n Digit)"
      unfolding Between_def lang.simps by blast
    then show "s \<in> lang (Between m n Digit)" by simp
  qed
  then show ?thesis by blast
qed

lemma groups_in_star:
  assumes "list_all (\<lambda>g. length g = 3 \<and> list_all isDigit g) gs"
  shows "concat (map (\<lambda>g. sep # g) gs) \<in> star (lang (Then (Lit sep) (Times 3 Digit)))"
  using assms
proof (induction gs)
  case Nil
  show ?case by (simp add: star.star_nil)
next
  case (Cons g gs)
  then have "sep # g \<in> lang (Then (Lit sep) (Times 3 Digit))"
    unfolding Then_Lit_iff by (simp add: lang_Times_Digit)
  moreover from Cons have "concat (map (\<lambda>g. sep # g) gs) \<in> star (lang (Then (Lit sep) (Times 3 Digit)))"
    by simp
  ultimately have "(sep # g) @ concat (map (\<lambda>g. sep # g) gs) \<in> star (lang (Then (Lit sep) (Times 3 Digit)))"
    by (rule star.star_app)
  then show ?case by simp
qed

lemma lang_ThenI: "u \<in> lang r \<Longrightarrow> v \<in> lang s \<Longrightarrow> u @ v \<in> lang (Then r s)"
  by auto

lemma grouped_matches:
  assumes "groupedShape lead gs"
  shows "grouped sep lead gs \<in>
           lang (Seq [minus_sign, Between 1 3 Digit, OneOrMore (Then (Lit sep) (Times 3 Digit))])"
proof -
  let ?grp = "Then (Lit sep) (Times 3 Digit)"
  from assms obtain g gs' where gs: "gs = g # gs'"
    by (cases gs) (auto simp: groupedShape_def)
  with assms have shape: "length g = 3 \<and> list_all isDigit g"
    "list_all (\<lambda>g. length g = 3 \<and> list_all isDigit g) gs'"
    by (simp_all add: groupedShape_def)
  from shape(1) have g: "sep # g \<in> lang ?grp"
    unfolding Then_Lit_iff by (simp add: lang_Times_Digit)
  from shape(2) have "concat (map (\<lambda>g. sep # g) gs') \<in> star (lang ?grp)"
    by (rule groups_in_star)
  then have rest: "concat (map (\<lambda>g. sep # g) gs') \<in> lang (Many ?grp)"
    by simp
  have "(sep # g) @ concat (map (\<lambda>g. sep # g) gs') \<in> lang (Then ?grp (Many ?grp))"
    using g rest by (rule lang_ThenI)
  then have tail: "concat (map (\<lambda>g. sep # g) gs) \<in> lang (OneOrMore ?grp)"
    by (simp only: gs OneOrMore_def list.map concat.simps)
  from assms have lead: "lead \<in> lang (Between 1 3 Digit)"
    by (simp add: lang_Between_Digit groupedShape_def)
  have "[] \<in> lang minus_sign"
    by (simp add: minus_sign_def Opt_def)
  then have "[] @ lead @ concat (map (\<lambda>g. sep # g) gs)
      \<in> lang (Then minus_sign (Then (Between 1 3 Digit) (OneOrMore ?grp)))"
    using lang_ThenI [OF lead tail] by (rule lang_ThenI)
  then show ?thesis by (simp only: grouped_def Seq.simps append_Nil)
qed

lemma NonDecimalIntegerLiteral_digits:
  assumes "list_all isDigit ds"
  shows "NonDecimalIntegerLiteral ds = None"
proof (cases ds)
  case Nil
  then show ?thesis by (simp add: NonDecimalIntegerLiteral_def)
next
  case (Cons z tl)
  show ?thesis
  proof (cases tl)
    case Nil
    with Cons show ?thesis by (simp add: NonDecimalIntegerLiteral_def)
  next
    case (Cons p rest)
    with assms \<open>ds = z # tl\<close> have "isDigit p" by simp
    then have "p \<notin> set ''xXoObB''"
      using digit_not_special [of p] by auto
    with Cons \<open>ds = z # tl\<close> show ?thesis
      by (simp add: NonDecimalIntegerLiteral_def)
  qed
qed

lemma Number_digits:
  assumes "ds \<noteq> []" "list_all isDigit ds"
  shows "Number ds = binary64 (of_nat (digitsValue 10 ds))"
proof -
  from assms obtain c cs where ds: "ds = c # cs" and c: "isDigit c"
    by (cases ds) auto
  from assms have "isDigit (hd ds)" "isDigit (last ds)"
    by (auto simp: list_all_iff)
  with assms(1) have t: "trim ds = ds"
    by (simp add: trim_id digit_not_space)
  have tw: "takeWhile isDigit ds = ds" "dropWhile isDigit ds = []"
    using assms(2) by (simp_all add: list_all_iff)
  from c have "ds \<noteq> ''Infinity''"
    using ds digit_not_special [of c] by auto
  then have "StrUnsignedDecimalLiteral ds = binary64 (of_nat (digitsValue 10 ds))"
    using assms(1) by (simp add: StrUnsignedDecimalLiteral_def tw ExponentPart_def pow10_def)
  moreover from c have "c \<noteq> CHR ''+''" "c \<noteq> CHR ''-''"
    using digit_not_special [of c] by auto
  ultimately have "StrDecimalLiteral ds = binary64 (of_nat (digitsValue 10 ds))"
    by (simp add: StrDecimalLiteral_def ds)
  with t assms show ?thesis
    by (simp add: Number_def NonDecimalIntegerLiteral_digits)
qed

section \<open>Thousands groups\<close>

lemma grouped_digits:
  assumes "groupedShape lead gs"
  shows "list_all isDigit (lead @ concat gs)" and "lead @ concat gs \<noteq> []"
  using assms by (auto simp: groupedShape_def list_all_iff)

lemma grouped_set:
  assumes "groupedShape lead gs"
  shows "set (grouped sep lead gs) = insert sep (set (lead @ concat gs))"
proof -
  from assms have "gs \<noteq> []" by (simp add: groupedShape_def)
  then have "set (concat (map (\<lambda>g. sep # g) gs)) = insert sep (set (concat gs))"
    by (induction gs) auto
  then show ?thesis by (auto simp: grouped_def)
qed

lemma grouped_removeAll:
  assumes "groupedShape lead gs" "\<not> isDigit sep"
  shows "removeAll_char sep (grouped sep lead gs) = lead @ concat gs"
proof -
  have keep: "filter (\<lambda>x. x \<noteq> sep) ds = ds" if "list_all isDigit ds" for ds
    using that assms(2) by (induction ds) auto
  from assms(1) have "list_all (list_all isDigit) gs"
    by (auto simp: groupedShape_def list_all_iff)
  then have "filter (\<lambda>x. x \<noteq> sep) (concat (map (\<lambda>g. sep # g) gs)) = concat gs"
    by (induction gs) (simp_all add: keep)
  moreover from assms(1) have "filter (\<lambda>x. x \<noteq> sep) lead = lead"
    by (simp add: keep groupedShape_def)
  ultimately show ?thesis by (simp add: removeAll_char_def grouped_def)
qed

lemma grouped_trim:
  assumes "groupedShape lead gs"
  shows "trim (grouped sep lead gs) = grouped sep lead gs"
    and "grouped sep lead gs \<noteq> []" and "grouped sep lead gs \<noteq> ''-''"
proof -
  from assms obtain c cs where lead: "lead = c # cs" and c: "isDigit c"
    by (cases lead) (auto simp: groupedShape_def)
  then show ne: "grouped sep lead gs \<noteq> []" by (simp add: grouped_def)
  from lead c show "grouped sep lead gs \<noteq> ''-''"
    using digit_not_special [of c] by (auto simp: grouped_def)
  from assms have "gs \<noteq> []" and g: "length (last gs) = 3 \<and> list_all isDigit (last gs)"
    by (auto simp: groupedShape_def list_all_iff)
  then have "last (concat (map (\<lambda>g. sep # g) gs)) = last (last gs)"
    by (induction gs) auto
  moreover from \<open>gs \<noteq> []\<close> have "concat (map (\<lambda>g. sep # g) gs) \<noteq> []"
    by (cases gs) auto
  ultimately have "last (grouped sep lead gs) = last (last gs)"
    by (simp add: grouped_def)
  moreover from g have "isDigit (last (last gs))"
    by (cases "last gs" rule: rev_cases) auto
  ultimately have "\<not> isWhiteSpace (last (grouped sep lead gs))"
    by (simp add: digit_not_space)
  moreover from lead c have "\<not> isWhiteSpace (hd (grouped sep lead gs))"
    by (simp add: grouped_def digit_not_space)
  ultimately show "trim (grouped sep lead gs) = grouped sep lead gs"
    using ne by (simp add: trim_id)
qed

lemma parseNumber_grouped_comma:
  assumes "groupedShape lead gs"
  shows "parseNumber (grouped (CHR '','') lead gs) = Some (Number (lead @ concat gs))"
proof -
  let ?t = "grouped (CHR '','') lead gs"
  note dg = grouped_digits [OF assms]
  have num: "Number (lead @ concat gs) \<noteq> NaN"
    using dg by (simp add: Number_digits binary64_not_NaN)
  have "CHR ''.'' \<notin> set (lead @ concat gs)"
    using dg(1) digit_not_special [of "CHR ''.''"] by (auto simp: list_all_iff)
  then have dot: "\<not> includes_char ?t (CHR ''.'')"
    unfolding includes_char_def grouped_set [OF assms] by simp
  have comma: "includes_char ?t (CHR '','')"
    unfolding includes_char_def grouped_set [OF assms] by simp
  have us: "test US_THOUSANDS ?t"
    using grouped_matches [OF assms, of "CHR '',''"] by (simp add: test_iff_lang US_THOUSANDS_def)
  have rm: "removeAll_char (CHR '','') ?t = lead @ concat gs"
    by (rule grouped_removeAll [OF assms]) (simp add: isDigit_def)
  show ?thesis
    unfolding parseNumber_def Let_def grouped_trim(1) [OF assms]
    using grouped_trim(2,3) [OF assms, of "CHR '',''"] dot comma us num
    by (simp add: rm number_or_null_def isNaN_def)
qed

lemma parseNumber_grouped_dot:
  assumes "groupedShape lead gs"
  shows "parseNumber (grouped (CHR ''.'') lead gs) = Some (Number (lead @ concat gs))"
proof -
  let ?t = "grouped (CHR ''.'') lead gs"
  note dg = grouped_digits [OF assms]
  have num: "Number (lead @ concat gs) \<noteq> NaN"
    using dg by (simp add: Number_digits binary64_not_NaN)
  have "CHR '','' \<notin> set (lead @ concat gs)"
    using dg(1) digit_not_special [of "CHR '',''"] by (auto simp: list_all_iff)
  then have comma: "\<not> includes_char ?t (CHR '','')"
    unfolding includes_char_def grouped_set [OF assms] by simp
  have dot: "includes_char ?t (CHR ''.'')"
    unfolding includes_char_def grouped_set [OF assms] by simp
  have eu: "test EU_THOUSANDS ?t"
    using grouped_matches [OF assms, of "CHR ''.''"] by (simp add: test_iff_lang EU_THOUSANDS_def)
  have rm: "removeAll_char (CHR ''.'') ?t = lead @ concat gs"
    by (rule grouped_removeAll [OF assms]) (simp add: isDigit_def)
  show ?thesis
    unfolding parseNumber_def Let_def grouped_trim(1) [OF assms]
    using grouped_trim(2,3) [OF assms, of "CHR ''.''"] dot comma eu num
    by (simp add: rm number_or_null_def isNaN_def)
qed

text \<open>
  C3.  For every string of one to three digits followed by one or more groups of
  exactly three digits, each behind a comma, \<open>parseNumber\<close> takes the comma for a
  thousands separator: it returns what \<open>Number\<close> gives for the digits without the
  commas, which is the number that these digits denote in base ten (the infinity, if
  they denote a value beyond the binary64 range).  Likewise with a dot in place of the
  comma.  This is about the definition of lines 114 to 164.
\<close>

theorem parseNumber_thousands_groups:
  assumes "groupedShape lead gs"
  shows "parseNumber (grouped (CHR '','') lead gs) = Some (Number (lead @ concat gs))
       \<and> parseNumber (grouped (CHR ''.'') lead gs) = Some (Number (lead @ concat gs))
       \<and> Number (lead @ concat gs) = binary64 (of_nat (digitsValue 10 (lead @ concat gs)))"
  using assms grouped_digits [OF assms]
  by (simp add: parseNumber_grouped_comma parseNumber_grouped_dot Number_digits
      del: list_all_append)

theorem parseNumber_thousands_groups_witness:
  "groupedShape ''12'' [''345'', ''678''] \<and>
   parseNumber ''12,345,678'' = Some (Finite 12345678) \<and>
   parseNumber ''12.345.678'' = Some (Finite 12345678)"
  using parseNumber_thousands_groups [of "''12''" "[''345'', ''678'']"]
  by (simp add: groupedShape_def grouped_def isDigit_def digitsValue_def digitValue_def
      binary64_small)

text \<open>
  The definition of lines 280 to 307 reads such a string differently: its first two
  patterns take a single group for a fraction.
\<close>

lemma parseNumber_patterns_single_group:
  "parseNumber_patterns ''1,000'' = Some (Finite 1)"
  "parseNumber_patterns ''1.000'' = Some (Finite 1)"
  by (simp_all add: parseNumber_patterns_def string_defs regexp_defs Number_defs
      PLAIN_NUMBER_PATTERN_def EU_NUMBER_PATTERN_def number_or_null_def isNaN_def)

section \<open>Both separators\<close>

lemma separator_not_space:
  "\<not> isWhiteSpace (CHR '','')" "\<not> isWhiteSpace (CHR ''.'')"
  by (simp_all add: isWhiteSpace_def)

lemma parseNumber_both:
  assumes "CHR '','' \<in> set v" "CHR ''.'' \<in> set v"
  shows "parseNumber v =
           number_or_null (Number
             (if lastIndexOf v (CHR '','') > lastIndexOf v (CHR ''.'')
              then replaceFirst (CHR '','') (CHR ''.'') (removeAll_char (CHR ''.'') (trim v))
              else removeAll_char (CHR '','') (trim v)))"
proof -
  let ?t = "trim v"
  from assms have c: "CHR '','' \<in> set ?t" and d: "CHR ''.'' \<in> set ?t"
    by (simp_all add: set_trim separator_not_space)
  then have ne: "?t \<noteq> []" by auto
  from c d have nm: "?t \<noteq> ''-''" by auto
  obtain k where k: "\<forall>d. \<not> isWhiteSpace d \<and> d \<in> set v \<longrightarrow> lastIndexOf v d = int k + lastIndexOf ?t d"
    using lastIndexOf_trim by blast
  from k assms have "lastIndexOf v (CHR '','') = int k + lastIndexOf ?t (CHR '','')"
    "lastIndexOf v (CHR ''.'') = int k + lastIndexOf ?t (CHR ''.'')"
    by (simp_all add: separator_not_space)
  then have cmp: "lastIndexOf ?t (CHR '','') > lastIndexOf ?t (CHR ''.'')
      \<longleftrightarrow> lastIndexOf v (CHR '','') > lastIndexOf v (CHR ''.'')"
    by simp
  show ?thesis
    unfolding parseNumber_def Let_def includes_char_def
    using ne nm c d by (simp add: cmp)
qed

text \<open>
  C2.  In a string that holds a comma and a dot, let \<open>i\<close> be the index of the last comma
  and \<open>j\<close> the index of the last dot.  If the comma comes last, \<open>parseNumber\<close> deletes
  every dot and converts the rest with the comma as the decimal point (\<^verbatim>\<open>replace\<close> with a
  string pattern turns the first comma into a dot); if the dot comes last, it deletes
  every comma and converts the rest.  In particular \<^verbatim>\<open>1.234.567,89\<close> and
  \<^verbatim>\<open>1,234,567.89\<close> both give 1234567.89.  This is about the definition of lines 114 to
  164.
\<close>

theorem parseNumber_last_separator_decides:
  assumes "i < length v" "v ! i = CHR '',''" "\<forall>k. i < k \<and> k < length v \<longrightarrow> v ! k \<noteq> CHR '',''"
    and "j < length v" "v ! j = CHR ''.''" "\<forall>k. j < k \<and> k < length v \<longrightarrow> v ! k \<noteq> CHR ''.''"
  shows "(j < i \<longrightarrow> parseNumber v = number_or_null (Number
            (replaceFirst (CHR '','') (CHR ''.'') (removeAll_char (CHR ''.'') (trim v)))))
       \<and> (i < j \<longrightarrow> parseNumber v = number_or_null (Number
            (removeAll_char (CHR '','') (trim v))))
       \<and> parseNumber ''1.234.567,89'' = Some (Finite (123456789 / 100))
       \<and> parseNumber ''1,234,567.89'' = Some (Finite (123456789 / 100))"
proof -
  from assms(1,2) have c: "CHR '','' \<in> set v" by (auto simp: in_set_conv_nth)
  from assms(4,5) have d: "CHR ''.'' \<in> set v" by (auto simp: in_set_conv_nth)
  have li: "lastIndexOf v (CHR '','') = int i"
    using assms(1-3) by (rule lastIndexOf_last)
  have lj: "lastIndexOf v (CHR ''.'') = int j"
    using assms(4-6) by (rule lastIndexOf_last)
  have n1: "Number ''1234567.89'' = Finite (123456789 / 100)"
    by (simp add: Number_defs string_defs)
  have e1: "parseNumber ''1.234.567,89'' = Some (Finite (123456789 / 100))"
    by (simp add: parseNumber_def string_defs n1 number_or_null_def isNaN_def)
  have e2: "parseNumber ''1,234,567.89'' = Some (Finite (123456789 / 100))"
    by (simp add: parseNumber_def string_defs n1 number_or_null_def isNaN_def)
  show ?thesis
    using parseNumber_both [OF c d] by (simp add: li lj e1 e2)
qed

theorem parseNumber_last_separator_decides_witness:
  "parseNumber ''1.000,5'' = Some (Finite (2001 / 2)) \<and>
   parseNumber ''1,000.5'' = Some (Finite (2001 / 2))"
  using parseNumber_last_separator_decides [of 5 "''1.000,5''" 1]
    parseNumber_last_separator_decides [of 1 "''1,000.5''" 5]
  by (simp add: string_defs Number_defs number_or_null_def isNaN_def nth_Cons')

text \<open>
  The definition of lines 280 to 307 agrees on the two examples and gives \<^verbatim>\<open>null\<close>
  where no pattern matches.
\<close>

lemma parseNumber_patterns_both_separators:
  "parseNumber_patterns ''1.234.567,89'' = Some (Finite (123456789 / 100))"
  "parseNumber_patterns ''1,234,567.89'' = Some (Finite (123456789 / 100))"
  "parseNumber_patterns ''1234,5.6'' = None"
  "parseNumber ''1234,5.6'' = Some (Finite (61728 / 5))"
  by (simp_all add: parseNumber_patterns_def parseNumber_def string_defs regexp_defs
      Number_defs PLAIN_NUMBER_PATTERN_def EU_NUMBER_PATTERN_def US_NUMBER_PATTERN_def
      number_or_null_def isNaN_def)

section \<open>When the disambiguator gives \<^verbatim>\<open>null\<close>\<close>

lemma parseNumber_converted:
  "parseNumber v =
     (if trim v = [] \<or> trim v = ''-'' then None
      else number_or_null (Number (converted (trim v))))"
  by (simp add: parseNumber_def converted_def Let_def includes_char_def)

text \<open>
  C1 says that \<open>parseNumber\<close> gives \<^verbatim>\<open>null\<close> only for an input that trims to the empty
  string or to a lone minus sign, or that holds no digit to interpret.  The input
  \<^verbatim>\<open>50%\<close> holds the digits 5 and 0, is neither empty nor a lone minus sign, and gives
  \<^verbatim>\<open>null\<close>: \<open>Number\<close> accepts a complete numeric literal only.
\<close>

theorem parseNumber_null_with_digits:
  "parseNumber ''50%'' = None \<and> trim ''50%'' \<noteq> [] \<and> trim ''50%'' \<noteq> ''-'' \<and>
   isDigit (CHR ''5'') \<and> CHR ''5'' \<in> set ''50%''"
  by (simp add: parseNumber_def string_defs Number_defs number_or_null_def isNaN_def)

text \<open>
  C1, amended.  \<open>parseNumber\<close> is total (it never raises), and it gives \<^verbatim>\<open>null\<close> exactly
  when the input trims to the empty string, trims to a lone minus sign, or the text that
  it converts (the trimmed input after the separator handling of its branch) is not a
  complete numeric literal, so that \<open>Number\<close> gives NaN.  For every other input it
  returns the number that \<open>Number\<close> gives for that text.
\<close>

theorem parseNumber_null_iff:
  "(parseNumber v = None \<longleftrightarrow>
      trim v = [] \<or> trim v = ''-'' \<or> Number (converted (trim v)) = NaN)
   \<and> (parseNumber v \<noteq> None \<longrightarrow> parseNumber v = Some (Number (converted (trim v))))"
  by (auto simp: parseNumber_converted number_or_null_def isNaN_def)

theorem parseNumber_null_iff_witness:
  "parseNumber ''3,14'' = Some (Finite (157 / 50)) \<and> parseNumber ''1,2,3'' = None"
  using parseNumber_null_iff [of "''3,14''"] parseNumber_null_iff [of "''1,2,3''"]
  by (simp add: converted_def string_defs regexp_defs Number_defs US_THOUSANDS_def
      EU_DECIMAL_def)

section \<open>The 80% threshold\<close>

lemma boolean_words:
  "isBooleanText ''true''" "isBooleanText ''false''" "isBooleanText ''yes''"
  "isBooleanText ''no''" "\<not> isBooleanText ''maybe''"
  by (simp_all add: isBooleanText_def BOOLEAN_VALUES_def toLowerCase_def toLowerCase_char_def)

lemma words_not_date:
  "\<not> isDateText ''true''" "\<not> isDateText ''false''" "\<not> isDateText ''yes''"
  "\<not> isDateText ''no''" "\<not> isDateText ''maybe''"
  by (simp_all add: isDateText_def DATE_PATTERNS_def regexp_defs isDigit_def)

lemma words_not_number:
  "\<not> isNumberText ''true''" "\<not> isNumberText ''false''" "\<not> isNumberText ''yes''"
  "\<not> isNumberText ''no''" "\<not> isNumberText ''maybe''"
  by (simp_all add: isNumberText_def parseNumber_def string_defs Number_defs
      number_or_null_def isNaN_def)

lemma words_trim:
  "trim ''true'' = ''true''" "trim ''false'' = ''false''" "trim ''yes'' = ''yes''"
  "trim ''no'' = ''no''" "trim ''maybe'' = ''maybe''"
  by (simp_all add: string_defs)

text \<open>
  C4 says that a column falls through to the next classifier only when the match ratio
  of the current one is below 80%.  In the sample \<open>four_of_five\<close> exactly 80% of the
  values are boolean words, and the column falls through all the same, down to string:
  the source clears a classification with \<^verbatim>\<open>count / length > 0.8\<close>.
\<close>

theorem detectSingleColumnType_at_80_percent:
  "matchRatio isBooleanText sample_host four_of_five = 8 / 10 \<and>
   detectSingleColumnType sample_host four_of_five = TString"
  by (simp add: matchRatio_def detectSingleColumnType_def four_of_five_def ratio_def
      toString_def words_trim boolean_words words_not_date words_not_number)

text \<open>
  C4, amended.  On an empty sample \<open>detectSingleColumnType\<close> returns string.  Otherwise
  it tries boolean, then date, then number, and a column clears a classification exactly
  when more than 80% of the sampled values match it; with a ratio of 80% or less it falls
  through to the next classifier, and to string after the last.
\<close>

theorem detectSingleColumnType_threshold:
  "detectSingleColumnType h [] = TString \<and>
   (values \<noteq> [] \<longrightarrow>
      detectSingleColumnType h values =
        (if matchRatio isBooleanText h values > 8 / 10 then TBoolean
         else if matchRatio isDateText h values > 8 / 10 then TDate
         else if matchRatio isNumberText h values > 8 / 10 then TNumber
         else TString))"
  by (simp add: detectSingleColumnType_def matchRatio_def ratio_def Let_def comp_def)

theorem detectSingleColumnType_threshold_witness:
  "four_of_five \<noteq> [] \<and> detectSingleColumnType sample_host four_of_five = TString"
  using detectSingleColumnType_threshold [of sample_host four_of_five]
  by (simp add: matchRatio_def four_of_five_def
      toString_def words_trim boolean_words words_not_date words_not_number)

section \<open>Groups\<close>








lemma set_firstSeen: "set (firstSeen xs) = set xs"
  by (simp add: firstSeen_def)




lemma parse_na: "parseNumber ''n/a'' = None" "parseNumber [] = None"
  by (simp_all add: parseNumber_def string_defs Number_defs number_or_null_def isNaN_def)


lemma parse_digits:
  "parseNumber ''1'' = Some (Finite 1)" "parseNumber ''2'' = Some (Finite 2)"
  "parseNumber ''9'' = Some (Finite 9)"
  by (simp_all add: parseNumber_def string_defs Number_defs number_or_null_def isNaN_def)





section \<open>Validity of a mapping\<close>

lemma checkColumns_result:
  "checkColumns columns dimen (es, ws) colNames =
     (es @ map (notFoundError dimen) (filter (\<lambda>c. \<not> columnExists columns c) colNames),
      ws @ typeWarnings columns dimen colNames)"
proof (induction colNames arbitrary: es ws)
  case Nil
  show ?case by (simp add: typeWarnings_def)
next
  case (Cons c cs)
  show ?case
  proof (cases "find (\<lambda>x. name x = c) columns")
    case None
    then have "\<not> columnExists columns c"
      by (auto simp: find_None_iff columnExists_def)
    with None show ?thesis by (simp add: Cons typeWarnings_def)
  next
    case (Some col)
    then have "columnExists columns c"
      by (auto simp: find_Some_iff columnExists_def)
    with Some show ?thesis by (simp add: Cons typeWarnings_def)
  qed
qed

lemma checkDimension_result:
  "checkDimension mapping columns acc dimen =
     (fst acc @ errorsOf mapping columns dimen, snd acc @ warningsOf mapping columns dimen)"
proof (cases "mapping (dim_id dimen)")
  case None
  then show ?thesis
    by (simp add: checkDimension_def errorsOf_def warningsOf_def falsy_def isEmptyArray_def)
next
  case (Some m)
  obtain es ws where acc: "acc = (es, ws)" by (cases acc)
  from Some acc show ?thesis
    by (auto simp: checkDimension_def errorsOf_def warningsOf_def falsy_def isEmptyArray_def
        checkColumns_result Let_def typeWarnings_def columnNamesOf_def tooMany_def)
qed

lemma fold_checkDimension:
  "foldl (checkDimension mapping columns) acc dimensions =
     (fst acc @ concat (map (errorsOf mapping columns) dimensions),
      snd acc @ concat (map (warningsOf mapping columns) dimensions))"
  by (induction dimensions arbitrary: acc) (simp_all add: checkDimension_result)

lemma validateMapping_result:
  "errors (validateMapping dimensions mapping columns)
     = concat (map (errorsOf mapping columns) dimensions)"
  "warnings (validateMapping dimensions mapping columns)
     = concat (map (warningsOf mapping columns) dimensions)"
  "isValid (validateMapping dimensions mapping columns)
     \<longleftrightarrow> errors (validateMapping dimensions mapping columns) = []"
  by (simp_all add: validateMapping_def fold_checkDimension Let_def)

lemma errorsOf_empty_iff:
  "errorsOf mapping columns dimen = [] \<longleftrightarrow> satisfied mapping columns dimen"
  by (auto simp: errorsOf_def satisfied_def list_all_iff filter_empty_conv split: option.splits)

lemma typeWarnings_member:
  assumes "colName \<in> set colNames" "find (\<lambda>c. name c = colName) columns = Some col"
    "confirmedType col \<notin> set (acceptedTypes dimen)"
  shows "typeWarning dimen colName col \<in> set (typeWarnings columns dimen colNames)"
  using assms by (auto simp: typeWarnings_def intro!: bexI [of _ colName])

lemmas validator_defs = validateMapping_def checkDimension_def falsy_def isEmptyArray_def
  columnNamesOf_def tooMany_def columnChart_dimensions_def chart_columns_def

text \<open>
  C7 says that a mapping in which every required dimension is filled with an existing
  column of an accepted type is valid.  The column chart requires \<open>x\<close> and \<open>y\<close>;
  \<open>mapping_with_unknown_color\<close> fills both with existing columns of accepted types, and
  names for the optional dimension \<open>color\<close> a column that does not exist.  The result is
  not valid: the validator checks the columns of every mapped dimension, required or
  not.
\<close>

theorem validateMapping_optional_dimension:
  "\<not> isValid (validateMapping columnChart_dimensions mapping_with_unknown_color chart_columns)
   \<and> map dim_id (filter required columnChart_dimensions) = [''x'', ''y'']
   \<and> map acceptedTypes (filter required columnChart_dimensions)
       = [[TString, TNumber, TDate], [TNumber]]
   \<and> mapping_with_unknown_color ''x'' = Some (Single ''Category'')
   \<and> mapping_with_unknown_color ''y'' = Some (Single ''Value'')
   \<and> map name chart_columns = [''Category'', ''Value'']
   \<and> map confirmedType chart_columns = [TString, TNumber]"
  by (simp add: validator_defs mapping_with_unknown_color_def)

text \<open>
  C7, amended.  \<open>isValid\<close> holds exactly when the list of errors is empty, whatever the
  warnings.  It holds exactly when every dimension is satisfied: a required dimension is
  filled, every column named for a filled dimension (required or optional) exists, and a
  dimension that does not allow several columns is given one at most; the types of the
  columns play no part in this.  An existing column named for a filled dimension whose
  confirmed type the dimension does not accept gives a warning.  A required dimension
  that the mapping leaves out makes the result invalid, with an error keyed by the id of
  that dimension.
\<close>

theorem validateMapping_validity:
  "(isValid (validateMapping dimensions mapping columns)
      \<longleftrightarrow> errors (validateMapping dimensions mapping columns) = [])
   \<and> (isValid (validateMapping dimensions mapping columns)
      \<longleftrightarrow> (\<forall>d \<in> set dimensions. satisfied mapping columns d))
   \<and> (\<forall>d \<in> set dimensions. \<forall>m colName col.
         mapping (dim_id d) = Some m \<and> m \<noteq> Single [] \<and> colName \<in> set (columnNamesOf m)
         \<and> find (\<lambda>c. name c = colName) columns = Some col
         \<and> confirmedType col \<notin> set (acceptedTypes d)
         \<longrightarrow> typeWarning d colName col
               \<in> set (warnings (validateMapping dimensions mapping columns)))
   \<and> (\<forall>d \<in> set dimensions. required d \<and> mapping (dim_id d) = None
         \<longrightarrow> \<not> isValid (validateMapping dimensions mapping columns)
             \<and> requiredError d \<in> set (errors (validateMapping dimensions mapping columns))
             \<and> dimensionId (requiredError d) = dim_id d)"
proof -
  let ?r = "validateMapping dimensions mapping columns"
  have a: "isValid ?r \<longleftrightarrow> errors ?r = []"
    by (rule validateMapping_result(3))
  have b: "isValid ?r \<longleftrightarrow> (\<forall>d \<in> set dimensions. satisfied mapping columns d)"
    by (simp add: a validateMapping_result(1) errorsOf_empty_iff)
  have c: "typeWarning d colName col \<in> set (warnings ?r)"
    if "d \<in> set dimensions" "mapping (dim_id d) = Some m" "m \<noteq> Single []"
      "colName \<in> set (columnNamesOf m)" "find (\<lambda>c. name c = colName) columns = Some col"
      "confirmedType col \<notin> set (acceptedTypes d)" for d m colName col
  proof -
    from that(4) have "m \<noteq> Multi []" by (auto simp: columnNamesOf_def)
    with that(2,3) have "warningsOf mapping columns d = typeWarnings columns d (columnNamesOf m)"
      by (simp add: warningsOf_def)
    with that(4,5,6) have "typeWarning d colName col \<in> set (warningsOf mapping columns d)"
      by (simp add: typeWarnings_member)
    with that(1) show ?thesis
      by (auto simp: validateMapping_result(2))
  qed
  have d: "\<not> isValid ?r \<and> requiredError d \<in> set (errors ?r)
            \<and> dimensionId (requiredError d) = dim_id d"
    if "d \<in> set dimensions" "required d" "mapping (dim_id d) = None" for d
  proof -
    from that(2,3) have "errorsOf mapping columns d = [requiredError d]"
      by (simp add: errorsOf_def)
    with that(1) have "requiredError d \<in> set (errors ?r)"
      by (auto simp: validateMapping_result(1) intro!: bexI [of _ d])
    moreover from this have "errors ?r \<noteq> []" by auto
    ultimately show ?thesis by (simp add: a requiredError_def)
  qed
  from a b c d show ?thesis by blast
qed

theorem validateMapping_validity_witness:
  "isValid (validateMapping columnChart_dimensions complete_mapping chart_columns)
   \<and> errors (validateMapping columnChart_dimensions complete_mapping chart_columns) = []
   \<and> \<not> isValid (validateMapping columnChart_dimensions mapping_without_y chart_columns)
   \<and> ''y'' \<in> set (map dimensionId
         (errors (validateMapping columnChart_dimensions mapping_without_y chart_columns)))
   \<and> isValid (validateMapping columnChart_dimensions swapped_mapping chart_columns)
   \<and> map dimensionId
         (warnings (validateMapping columnChart_dimensions swapped_mapping chart_columns))
       = [''y'']"
  using validateMapping_validity [of columnChart_dimensions complete_mapping chart_columns]
    validateMapping_validity [of columnChart_dimensions mapping_without_y chart_columns]
    validateMapping_validity [of columnChart_dimensions swapped_mapping chart_columns]
  by (simp add: validator_defs complete_mapping_def mapping_without_y_def swapped_mapping_def
      requiredError_def typeWarning_def satisfied_def)

section \<open>Parsing text\<close>

lemma trim_csv_example: "trim csv_example = csv_example"
  by (simp add: csv_example_def string_defs)

lemma Papa_parse_spec_example:
  "Papa_parse_spec csv_example =
     \<lparr> papa_data =
         [[''Name'' \<mapsto> Str ''Alpha'', ''Value'' \<mapsto> Str ''100''],
          [''Name'' \<mapsto> Str ''Beta'', ''Value'' \<mapsto> Str ''200''],
          [''Name'' \<mapsto> Str ''Gamma'', ''Value'' \<mapsto> Str ''300'']],
       papa_errors = [], papa_fields = Some [''Name'', ''Value''] \<rparr>"
  by (simp add: Papa_parse_spec_def csv_example_def detectDelimiter_def string_defs
      fun_upd_twist)

text \<open>
  C8.  On a text whose trimmed form is empty, \<open>parseText\<close> returns no row, the row count
  0 and the one error \<^verbatim>\<open>Empty input\<close>, whatever the library does.  With the library as
  the specification describes it, the text of four lines \<^verbatim>\<open>Name,Value\<close>, \<^verbatim>\<open>Alpha,100\<close>,
  \<^verbatim>\<open>Beta,200\<close>, \<^verbatim>\<open>Gamma,300\<close> gives the row count 3, the headers \<^verbatim>\<open>Name\<close> and
  \<^verbatim>\<open>Value\<close>, and rows whose cells are the raw strings, the first being \<^verbatim>\<open>Alpha\<close> and
  \<^verbatim>\<open>100\<close>.
\<close>

theorem parseText_results:
  "(trim text = [] \<longrightarrow>
      rowCount (parseText h Papa_parse text) = 0
      \<and> parsed_data (parseText h Papa_parse text) = []
      \<and> parse_errors (parseText h Papa_parse text) = [''Empty input''])
   \<and> rowCount (parseText h Papa_parse_spec csv_example) = 3
   \<and> rawHeaders (parseText h Papa_parse_spec csv_example) = [''Name'', ''Value'']
   \<and> parsed_data (parseText h Papa_parse_spec csv_example) =
        [[''Name'' \<mapsto> Str ''Alpha'', ''Value'' \<mapsto> Str ''100''],
         [''Name'' \<mapsto> Str ''Beta'', ''Value'' \<mapsto> Str ''200''],
         [''Name'' \<mapsto> Str ''Gamma'', ''Value'' \<mapsto> Str ''300'']]"
proof -
  have csv: "csv_example \<noteq> []" by (simp add: csv_example_def)
  show ?thesis
    by (simp add: parseText_def Let_def trim_csv_example csv Papa_parse_spec_example)
qed

theorem parseText_results_witness:
  "trim ''  '' = [] \<and> rowCount (parseText sample_host Papa_parse_spec ''  '') = 0
   \<and> parse_errors (parseText sample_host Papa_parse_spec ''  '') = [''Empty input'']"
  using parseText_results [of "''  ''" sample_host Papa_parse_spec]
  by (simp add: string_defs)

section \<open>Column metadata\<close>

lemma set_parsedNumbers:
  "set (parsedNumbers h vs) = {n. \<exists>v \<in> set vs. parseNumber (toString h (orEmpty v)) = Some n}"
  by (induction vs) (auto simp: parsedNumbers_def map_filter_simps split: option.splits)

lemma length_parsedNumbers:
  "length (parsedNumbers h vs)
     = length (filter (\<lambda>v. parseNumber (toString h (orEmpty v)) \<noteq> None) vs)"
  by (simp add: parsedNumbers_def map_filter_def)

lemma detectColumn_name: "name (detectColumn h data sample nm) = nm"
  by (simp add: detectColumn_def Let_def)

lemma detectColumn_fields:
  fixes h data sample nm
  defines "m \<equiv> detectColumn h data sample nm"
  defines "allValues \<equiv> map (\<lambda>row. property row nm) data"
  defines "nums \<equiv> parsedNumbers h allValues"
  shows "confirmedType m = detectedType m"
    and "detectedType m = detectSingleColumnType h (present (map (\<lambda>row. property row nm) sample))"
    and "nullCount m = length (filter isBlank allValues)"
    and "uniqueValues m = card (set (present allValues))"
    and "sampleValues m = take 5 (present (map (\<lambda>row. property row nm) sample))"
    and "detectedType m = TNumber \<and> nums \<noteq> [] \<Longrightarrow>
           min_stat m = Some (Math_min nums) \<and> max_stat m = Some (Math_max nums)
           \<and> mean m = Some (divideBy (sum_reduce nums) (length nums))"
    and "\<not> (detectedType m = TNumber \<and> nums \<noteq> []) \<Longrightarrow>
           min_stat m = None \<and> max_stat m = None \<and> mean m = None"
proof -
  let ?t = "detectSingleColumnType h (present (map (\<lambda>row. property row nm) sample))"
  let ?base = "\<lparr> name = nm, detectedType = ?t, confirmedType = ?t,
      uniqueValues = length (remdups (present allValues)),
      nullCount = length (filter isBlank allValues),
      sampleValues = take 5 (present (map (\<lambda>row. property row nm) sample)),
      min_stat = None, max_stat = None, mean = None \<rparr>"
  have m: "m = (if ?t = TNumber \<and> nums \<noteq> []
                then ?base \<lparr> min_stat := Some (Math_min nums), max_stat := Some (Math_max nums),
                              mean := Some (divideBy (sum_reduce nums) (length nums)) \<rparr>
                else ?base)"
    unfolding m_def allValues_def nums_def detectColumn_def Let_def by simp
  show "confirmedType m = detectedType m"
    and t: "detectedType m = ?t"
    and "nullCount m = length (filter isBlank allValues)"
    and "uniqueValues m = card (set (present allValues))"
    and "sampleValues m = take 5 (present (map (\<lambda>row. property row nm) sample))"
    by (simp_all add: m card_set)
  show "detectedType m = TNumber \<and> nums \<noteq> [] \<Longrightarrow>
           min_stat m = Some (Math_min nums) \<and> max_stat m = Some (Math_max nums)
           \<and> mean m = Some (divideBy (sum_reduce nums) (length nums))"
    unfolding t by (simp add: m)
  show "\<not> (detectedType m = TNumber \<and> nums \<noteq> []) \<Longrightarrow>
           min_stat m = None \<and> max_stat m = None \<and> mean m = None"
    unfolding t by (simp add: m)
qed

lemma parseNumber_result_not_NaN: "parseNumber v = Some n \<Longrightarrow> n \<noteq> NaN"
  by (auto simp: parseNumber_def Let_def number_or_null_def isNaN_def split: if_splits)

lemma parsedNumbers_not_NaN: "NaN \<notin> set (parsedNumbers h vs)"
  by (auto simp: set_parsedNumbers dest: parseNumber_result_not_NaN)

lemma lt_number_trans:
  "lt_number x y \<Longrightarrow> lt_number y z \<Longrightarrow> lt_number x z"
  by (cases x; cases y; cases z) simp_all

lemma lt_number_below:
  "x \<noteq> NaN \<Longrightarrow> a \<noteq> NaN \<Longrightarrow> r \<noteq> NaN \<Longrightarrow>
   lt_number x r \<Longrightarrow> \<not> lt_number a r \<Longrightarrow> lt_number x a"
  by (cases x; cases r; cases a) simp_all

lemma lt_number_above:
  "x \<noteq> NaN \<Longrightarrow> a \<noteq> NaN \<Longrightarrow> r \<noteq> NaN \<Longrightarrow>
   lt_number r x \<Longrightarrow> \<not> lt_number r a \<Longrightarrow> lt_number a x"
  by (cases x; cases r; cases a) simp_all

lemma foldl_min2_least:
  assumes "a \<noteq> NaN" "NaN \<notin> set xs"
  shows "foldl min2 a xs \<in> set (a # xs)
         \<and> (\<forall>y \<in> set (a # xs). \<not> lt_number y (foldl min2 a xs))"
  using assms
proof (induction xs arbitrary: a)
  case Nil
  then show ?case by (cases a) simp_all
next
  case (Cons x xs)
  let ?a = "min2 a x"
  let ?r = "foldl min2 ?a xs"
  from Cons.prems have x: "x \<noteq> NaN" and xs: "NaN \<notin> set xs" by auto
  with Cons.prems have a': "?a \<noteq> NaN" "?a = a \<or> ?a = x"
    by (auto simp: min2_def isNaN_def)
  from Cons.IH [OF a'(1) xs]
  have r: "?r \<in> set (?a # xs)" and least: "\<forall>y \<in> set (?a # xs). \<not> lt_number y ?r"
    by blast+
  from r a'(1) xs have rn: "?r \<noteq> NaN" by auto
  from least have la: "\<not> lt_number ?a ?r" by simp
  have "\<not> lt_number a ?r \<and> \<not> lt_number x ?r"
  proof (cases "lt_number x a")
    case True
    then have "?a = x" using x Cons.prems(1) by (simp add: min2_def isNaN_def)
    with la True show ?thesis by (auto dest: lt_number_trans)
  next
    case False
    then have "?a = a" using x Cons.prems(1) by (simp add: min2_def isNaN_def)
    with la False show ?thesis
      using lt_number_below [OF x Cons.prems(1) rn] by auto
  qed
  with r least a'(2) show ?case by auto
qed

lemma foldl_max2_greatest:
  assumes "a \<noteq> NaN" "NaN \<notin> set xs"
  shows "foldl max2 a xs \<in> set (a # xs)
         \<and> (\<forall>y \<in> set (a # xs). \<not> lt_number (foldl max2 a xs) y)"
  using assms
proof (induction xs arbitrary: a)
  case Nil
  then show ?case by (cases a) simp_all
next
  case (Cons x xs)
  let ?a = "max2 a x"
  let ?r = "foldl max2 ?a xs"
  from Cons.prems have x: "x \<noteq> NaN" and xs: "NaN \<notin> set xs" by auto
  with Cons.prems have a': "?a \<noteq> NaN" "?a = a \<or> ?a = x"
    by (auto simp: max2_def isNaN_def)
  from Cons.IH [OF a'(1) xs]
  have r: "?r \<in> set (?a # xs)" and greatest: "\<forall>y \<in> set (?a # xs). \<not> lt_number ?r y"
    by blast+
  from r a'(1) xs have rn: "?r \<noteq> NaN" by auto
  from greatest have la: "\<not> lt_number ?r ?a" by simp
  have "\<not> lt_number ?r a \<and> \<not> lt_number ?r x"
  proof (cases "lt_number a x")
    case True
    then have "?a = x" using x Cons.prems(1) by (simp add: max2_def isNaN_def)
    with la True show ?thesis by (auto dest: lt_number_trans)
  next
    case False
    then have "?a = a" using x Cons.prems(1) by (simp add: max2_def isNaN_def)
    with la False show ?thesis
      using lt_number_above [OF x Cons.prems(1) rn] by auto
  qed
  with r greatest a'(2) show ?case by auto
qed

lemma Math_min_least:
  assumes "xs \<noteq> []" "NaN \<notin> set xs"
  shows "Math_min xs \<in> set xs \<and> (\<forall>y \<in> set xs. \<not> lt_number y (Math_min xs))"
proof -
  from foldl_min2_least [of PosInfinity xs] assms(2)
  have r: "Math_min xs \<in> set (PosInfinity # xs)"
    and least: "\<forall>y \<in> set xs. \<not> lt_number y (Math_min xs)"
    by (auto simp: Math_min_def)
  have "Math_min xs \<in> set xs"
  proof (cases "Math_min xs = PosInfinity")
    case True
    from assms(1) obtain y where y: "y \<in> set xs" by (cases xs) auto
    with least True have "\<not> lt_number y PosInfinity" by auto
    moreover from y assms(2) have "y \<noteq> NaN" by auto
    ultimately have "y = PosInfinity" by (cases y) simp_all
    with y True show ?thesis by simp
  next
    case False
    with r show ?thesis by simp
  qed
  with least show ?thesis by simp
qed

lemma Math_max_greatest:
  assumes "xs \<noteq> []" "NaN \<notin> set xs"
  shows "Math_max xs \<in> set xs \<and> (\<forall>y \<in> set xs. \<not> lt_number (Math_max xs) y)"
proof -
  from foldl_max2_greatest [of NegInfinity xs] assms(2)
  have r: "Math_max xs \<in> set (NegInfinity # xs)"
    and greatest: "\<forall>y \<in> set xs. \<not> lt_number (Math_max xs) y"
    by (auto simp: Math_max_def)
  have "Math_max xs \<in> set xs"
  proof (cases "Math_max xs = NegInfinity")
    case True
    from assms(1) obtain y where y: "y \<in> set xs" by (cases xs) auto
    with greatest True have "\<not> lt_number NegInfinity y" by auto
    moreover from y assms(2) have "y \<noteq> NaN" by auto
    ultimately have "y = NegInfinity" by (cases y) simp_all
    with y True show ?thesis by simp
  next
    case False
    with r show ?thesis by simp
  qed
  with greatest show ?thesis by simp
qed

lemma present_append: "present (xs @ ys) = present xs @ present ys"
  by (induction xs rule: present.induct) simp_all

lemma present_replicate:
  "present (replicate n (Some c)) = (if isBlank (Some c) then [] else replicate n c)"
  by (induction n) simp_all

lemma parsedNumbers_append:
  "parsedNumbers h (xs @ ys) = parsedNumbers h xs @ parsedNumbers h ys"
  by (simp add: parsedNumbers_def map_filter_def)

lemma parsedNumbers_replicate:
  "parsedNumbers h (replicate n v) =
     (case parseNumber (toString h (orEmpty v)) of None \<Rightarrow> [] | Some x \<Rightarrow> replicate n x)"
  by (induction n) (simp_all add: parsedNumbers_def map_filter_simps split: option.splits)

lemma lt_number_irrefl: "\<not> lt_number x x"
  by (cases x) simp_all

lemma min2_again: "min2 (min2 a x) x = min2 a x"
  by (simp add: min2_def isNaN_def lt_number_irrefl)

lemma max2_again: "max2 (max2 a x) x = max2 a x"
  by (simp add: max2_def isNaN_def lt_number_irrefl)

lemma foldl_min2_again: "foldl min2 (min2 a x) (replicate n x) = min2 a x"
  by (induction n) (simp_all add: min2_again)

lemma foldl_max2_again: "foldl max2 (max2 a x) (replicate n x) = max2 a x"
  by (induction n) (simp_all add: max2_again)

lemma foldl_min2_replicate: "0 < n \<Longrightarrow> foldl min2 a (replicate n x) = min2 a x"
  by (cases n) (simp_all add: foldl_min2_again)

lemma foldl_max2_replicate: "0 < n \<Longrightarrow> foldl max2 a (replicate n x) = max2 a x"
  by (cases n) (simp_all add: foldl_max2_again)

lemma parsedNumbers_Nil: "parsedNumbers h [] = []"
  by (simp add: parsedNumbers_def map_filter_simps)

lemma parsedNumbers_Cons:
  "parsedNumbers h (v # vs) =
     (case parseNumber (toString h (orEmpty v)) of
        None \<Rightarrow> parsedNumbers h vs
      | Some x \<Rightarrow> x # parsedNumbers h vs)"
  by (simp add: parsedNumbers_def map_filter_simps split: option.splits)

lemma foldl_add_replicate:
  "\<bar>a\<bar> + of_nat n * \<bar>b\<bar> \<le> 10 ^ 18 \<Longrightarrow>
   foldl add (Finite a) (replicate n (Finite b)) = Finite (a + of_nat n * b)"
proof (induction n arbitrary: a)
  case 0
  show ?case by simp
next
  case (Suc n)
  have "\<bar>a + b\<bar> \<le> \<bar>a\<bar> + \<bar>b\<bar>" by (rule abs_triangle_ineq)
  moreover have "0 \<le> of_nat n * \<bar>b\<bar>" by simp
  moreover from Suc.prems have "\<bar>a\<bar> + \<bar>b\<bar> + of_nat n * \<bar>b\<bar> \<le> 10 ^ 18"
    by (simp add: algebra_simps)
  ultimately have small: "\<bar>a + b\<bar> \<le> 10 ^ 18"
    and rest: "\<bar>a + b\<bar> + of_nat n * \<bar>b\<bar> \<le> 10 ^ 18"
    by linarith+
  from small have "add (Finite a) (Finite b) = Finite (a + b)"
    by (simp add: binary64_small)
  with Suc.IH [OF rest] show ?case by (simp add: algebra_simps)
qed

lemma two_is_number:
  "trim ''2'' = ''2''" "\<not> isBooleanText ''2''" "\<not> isDateText ''2''" "isNumberText ''2''"
  by (simp_all add: string_defs isBooleanText_def BOOLEAN_VALUES_def toLowerCase_def
      toLowerCase_char_def isDateText_def DATE_PATTERNS_def regexp_defs isNumberText_def
      parse_digits)

lemma detect_long_sample:
  "detectSingleColumnType h (replicate 100 (Str ''2'')) = TNumber"
  by (simp add: detectSingleColumnType_def toString_def two_is_number ratio_def)

lemma long_rows_values:
  "map (\<lambda>row. property row ''v'') long_rows =
     replicate 100 (Some (Str ''2'')) @ [Some (Str ''9''), Some (Str ''n/a''), Some Null]"
  "take SAMPLE_SIZE long_rows = replicate 100 [''v'' \<mapsto> Str ''2'']"
  "length long_rows = 103"
  by (simp_all add: long_rows_def property_def SAMPLE_SIZE_def)

lemma detect_long_rows:
  "detectColumnTypes h long_rows [''v''] =
     [\<lparr> name = ''v'', detectedType = TNumber, confirmedType = TNumber, uniqueValues = 3,
        nullCount = 1, sampleValues = replicate 5 (Str ''2''),
        min_stat = Some (Finite 2), max_stat = Some (Finite 9),
        mean = Some (Finite (209 / 101)) \<rparr>]"
proof -
  have nums: "parsedNumbers h
                (replicate 100 (Some (Str ''2'')) @ [Some (Str ''9''), Some (Str ''n/a''), Some Null])
                = replicate 100 (Finite 2) @ [Finite 9]"
    by (simp add: parsedNumbers_append parsedNumbers_replicate parsedNumbers_Cons
        parsedNumbers_Nil toString_def orEmpty_def parse_digits parse_na)
  have mn: "Math_min (replicate 100 (Finite 2) @ [Finite 9]) = Finite 2"
    by (simp add: Math_min_def foldl_min2_replicate min2_def isNaN_def)
  have mx: "Math_max (replicate 100 (Finite 2) @ [Finite 9]) = Finite 9"
    by (simp add: Math_max_def foldl_max2_replicate max2_def isNaN_def)
  have sm: "sum_reduce (replicate 100 (Finite 2) @ [Finite 9]) = Finite 209"
    by (simp add: sum_reduce_def foldl_add_replicate binary64_small)
  have sample: "present (replicate 100 (Some (Str ''2''))) = replicate 100 (Str ''2'')"
    by (simp add: present_replicate isBlank_def)
  have pres: "present (replicate 100 (Some (Str ''2''))
                @ [Some (Str ''9''), Some (Str ''n/a''), Some Null])
              = replicate 100 (Str ''2'') @ [Str ''9'', Str ''n/a'']"
    by (simp add: present_append present_replicate isBlank_def)
  have uniq: "length (remdups (replicate 100 (Str ''2'') @ [Str ''9'', Str ''n/a''])) = 3"
    by (simp add: length_remdups_card_conv)
  have blank: "length (filter isBlank (replicate 100 (Some (Str ''2''))
                @ [Some (Str ''9''), Some (Str ''n/a''), Some Null])) = 1"
    by (simp add: isBlank_def)
  have smp: "map (\<lambda>row. property row ''v'') (replicate 100 [''v'' \<mapsto> Str ''2''])
               = replicate 100 (Some (Str ''2''))"
    by (simp add: property_def)
  show ?thesis
    unfolding detectColumnTypes_def detectColumn_def Let_def list.map long_rows_values(1,2)
      smp sample pres uniq blank nums mn mx sm detect_long_sample
    by simp
qed

text \<open>
  C9.  \<open>detectColumnTypes\<close> returns one record for every header, in their order.  In
  every record the confirmed type is one of the four types, and is the detected type,
  which is decided on the values of the first 100 rows that are not blank.  The count
  of nulls counts the blank values of all the rows, and the count of unique values the
  distinct values of all the rows that are not blank.  Let \<open>nums\<close> be the numbers that
  \<open>parseNumber\<close> gives for the values of all the rows: a value that does not parse is
  left out of them, neither counted nor taken for zero.  The record carries a minimum,
  a maximum and a mean exactly when the detected type is number and \<open>nums\<close> is not
  empty; then the minimum is a least and the maximum a greatest element of \<open>nums\<close>,
  and the mean is their sum divided by their count.
\<close>

theorem detectColumnTypes_metadata:
  "map name (detectColumnTypes h data headers) = headers
   \<and> (\<forall>m \<in> set (detectColumnTypes h data headers).
        (let allValues = map (\<lambda>row. property row (name m)) data;
             nums = parsedNumbers h allValues
         in confirmedType m \<in> {TString, TNumber, TDate, TBoolean}
            \<and> confirmedType m = detectedType m
            \<and> detectedType m =
                  detectSingleColumnType h
                    (present (map (\<lambda>row. property row (name m)) (take SAMPLE_SIZE data)))
            \<and> nullCount m = length (filter isBlank allValues)
            \<and> uniqueValues m = card (set (present allValues))
            \<and> set nums = {n. \<exists>v \<in> set allValues. parseNumber (toString h (orEmpty v)) = Some n}
            \<and> length nums
                = length (filter (\<lambda>v. parseNumber (toString h (orEmpty v)) \<noteq> None) allValues)
            \<and> (if detectedType m = TNumber \<and> nums \<noteq> []
                then min_stat m = Some (Math_min nums) \<and> Math_min nums \<in> set nums
                     \<and> (\<forall>n \<in> set nums. \<not> lt_number n (Math_min nums))
                     \<and> max_stat m = Some (Math_max nums) \<and> Math_max nums \<in> set nums
                     \<and> (\<forall>n \<in> set nums. \<not> lt_number (Math_max nums) n)
                     \<and> mean m = Some (divideBy (sum_reduce nums) (length nums))
                else min_stat m = None \<and> max_stat m = None \<and> mean m = None)))"
proof -
  have names: "map name (detectColumnTypes h data headers) = headers"
    by (simp add: detectColumnTypes_def Let_def comp_def detectColumn_name)
  have fields:
    "let allValues = map (\<lambda>row. property row (name m)) data;
         nums = parsedNumbers h allValues
     in confirmedType m \<in> {TString, TNumber, TDate, TBoolean}
        \<and> confirmedType m = detectedType m
        \<and> detectedType m =
              detectSingleColumnType h
                (present (map (\<lambda>row. property row (name m)) (take SAMPLE_SIZE data)))
        \<and> nullCount m = length (filter isBlank allValues)
        \<and> uniqueValues m = card (set (present allValues))
        \<and> set nums = {n. \<exists>v \<in> set allValues. parseNumber (toString h (orEmpty v)) = Some n}
        \<and> length nums
            = length (filter (\<lambda>v. parseNumber (toString h (orEmpty v)) \<noteq> None) allValues)
        \<and> (if detectedType m = TNumber \<and> nums \<noteq> []
            then min_stat m = Some (Math_min nums) \<and> Math_min nums \<in> set nums
                 \<and> (\<forall>n \<in> set nums. \<not> lt_number n (Math_min nums))
                 \<and> max_stat m = Some (Math_max nums) \<and> Math_max nums \<in> set nums
                 \<and> (\<forall>n \<in> set nums. \<not> lt_number (Math_max nums) n)
                 \<and> mean m = Some (divideBy (sum_reduce nums) (length nums))
            else min_stat m = None \<and> max_stat m = None \<and> mean m = None)"
    if "m \<in> set (detectColumnTypes h data headers)" for m
  proof -
    from that obtain nm where m: "m = detectColumn h data (take SAMPLE_SIZE data) nm"
      by (auto simp: detectColumnTypes_def Let_def)
    have nm: "name m = nm" by (simp add: m detectColumn_name)
    let ?all = "map (\<lambda>row. property row nm) data"
    let ?nums = "parsedNumbers h ?all"
    note f = detectColumn_fields [of h data "take SAMPLE_SIZE data" nm, folded m]
    have ty: "confirmedType m \<in> {TString, TNumber, TDate, TBoolean}"
      by (cases "confirmedType m") simp_all
    have stats: "if detectedType m = TNumber \<and> ?nums \<noteq> []
            then min_stat m = Some (Math_min ?nums) \<and> Math_min ?nums \<in> set ?nums
                 \<and> (\<forall>n \<in> set ?nums. \<not> lt_number n (Math_min ?nums))
                 \<and> max_stat m = Some (Math_max ?nums) \<and> Math_max ?nums \<in> set ?nums
                 \<and> (\<forall>n \<in> set ?nums. \<not> lt_number (Math_max ?nums) n)
                 \<and> mean m = Some (divideBy (sum_reduce ?nums) (length ?nums))
            else min_stat m = None \<and> max_stat m = None \<and> mean m = None"
    proof (cases "detectedType m = TNumber \<and> ?nums \<noteq> []")
      case True
      then have ne: "?nums \<noteq> []" by simp
      from f(6) [OF True] Math_min_least [OF ne parsedNumbers_not_NaN]
        Math_max_greatest [OF ne parsedNumbers_not_NaN] True
      show ?thesis by simp
    next
      case False
      from f(7) [OF False] False show ?thesis by simp
    qed
    show ?thesis
      unfolding Let_def nm
      using ty f(1-4) stats set_parsedNumbers [of h ?all] length_parsedNumbers [of h ?all]
      by simp
  qed
  from names fields show ?thesis by blast
qed

theorem detectColumnTypes_metadata_witness:
  "length long_rows = 103
   \<and> map nullCount (detectColumnTypes sample_host long_rows [''v'']) = [1]
   \<and> map uniqueValues (detectColumnTypes sample_host long_rows [''v'']) = [3]
   \<and> map max_stat (detectColumnTypes sample_host long_rows [''v'']) = [Some (Finite 9)]
   \<and> map mean (detectColumnTypes sample_host long_rows [''v'']) = [Some (Finite (209 / 101))]"
  using detectColumnTypes_metadata [of sample_host long_rows "[''v'']"]
  by (simp add: detect_long_rows long_rows_values(3))

end
